theory Spec2Isabelle
  imports Complex_Main
begin

section \<open>Configuration and numeric values\<close>

text \<open>
  The module \<^verbatim>\<open>config\<close> is read by the analyzers but its values are not fixed here:
  every threshold is a field of a record that the functions take as a parameter.
  \<^verbatim>\<open>KNOWN_OBJECT_SIZES\<close> is a dictionary of dictionaries.
\<close>

record config =
  critical_distance :: real
  high_risk_distance :: real
  medium_risk_distance :: real
  critical_ttc :: real
  high_risk_ttc :: real
  medium_risk_ttc :: real
  known_object_sizes :: "string \<Rightarrow> (string \<Rightarrow> real option) option"

text \<open>
  A Python float that may be \<^verbatim>\<open>float('inf')\<close>: either a finite real or plus infinity.
  Arithmetic is over the reals; rounding and overflow of IEEE doubles are not modelled.
\<close>

datatype pyfloat = Fin real | PInf

fun pf_less :: "pyfloat \<Rightarrow> real \<Rightarrow> bool" where
  "pf_less (Fin x) c = (x < c)"
| "pf_less PInf c = False"

fun pf_greater :: "pyfloat \<Rightarrow> real \<Rightarrow> bool" where
  "pf_greater (Fin x) c = (x > c)"
| "pf_greater PInf c = True"


section \<open>Lane detector\<close>

text \<open>
  A Hough line segment is \<^verbatim>\<open>[x1, y1, x2, y2]\<close> in integer pixels. A lane boundary is
  the two end points of such a segment (\<^verbatim>\<open>np.array([l[:2], l[2:]])\<close>).
\<close>

type_synonym line = "int \<times> int \<times> int \<times> int"
type_synonym boundary = "(int \<times> int) \<times> (int \<times> int)"

text \<open>Class \<^verbatim>\<open>LaneInfo\<close>; the field \<^verbatim>\<open>lanes\<close> is written but never read by the analyzers.\<close>

record lane_info =
  ego_lane_id :: int
  lane_boundaries :: "(boundary \<times> boundary) list"
  lane_change_detected :: bool
  lane_change_direction :: string
  frame_width :: int
  frame_height :: int

definition LaneInfo_init :: lane_info where
  "LaneInfo_init = \<lparr>ego_lane_id = 0, lane_boundaries = [], lane_change_detected = False,
     lane_change_direction = ''none'', frame_width = 0, frame_height = 0\<rparr>"

text \<open>\<^verbatim>\<open>np.mean([b[0][0], b[1][0]])\<close>: the mean x coordinate of a boundary.\<close>

definition boundary_x :: "boundary \<Rightarrow> real" where
  "boundary_x b = (real_of_int (fst (fst b)) + real_of_int (fst (snd b))) / 2"

definition line_mid_x :: "line \<Rightarrow> real" where
  "line_mid_x l = (case l of (x1, y1, x2, y2) \<Rightarrow> (real_of_int x1 + real_of_int x2) / 2)"

text \<open>Python's \<^verbatim>\<open>max(xs, key=f)\<close> and \<^verbatim>\<open>min(xs, key=f)\<close>: the first extremal element.\<close>

fun max_by :: "('a \<Rightarrow> real) \<Rightarrow> 'a \<Rightarrow> 'a list \<Rightarrow> 'a" where
  "max_by f best [] = best"
| "max_by f best (x # xs) = max_by f (if f x > f best then x else best) xs"

fun min_by :: "('a \<Rightarrow> real) \<Rightarrow> 'a \<Rightarrow> 'a list \<Rightarrow> 'a" where
  "min_by f best [] = best"
| "min_by f best (x # xs) = min_by f (if f x < f best then x else best) xs"

text \<open>The loop of \<^verbatim>\<open>_process_lane_lines\<close> that sorts the lines into left and right ones.\<close>

fun split_lines :: "int \<Rightarrow> line list \<Rightarrow> line list \<times> line list" where
  "split_lines center_x [] = ([], [])"
| "split_lines center_x ((x1, y1, x2, y2) # ls) =
     (let (left_lines, right_lines) = split_lines center_x ls in
      if x2 - x1 = 0 then (left_lines, right_lines)
      else let slope = real_of_int (y2 - y1) / real_of_int (x2 - x1) in
        if \<bar>slope\<bar> < 0.3 \<or> \<bar>slope\<bar> > 3.0 then (left_lines, right_lines)
        else if (real_of_int x1 + real_of_int x2) / 2 < real_of_int center_x
          then ((x1, y1, x2, y2) # left_lines, right_lines)
          else (left_lines, (x1, y1, x2, y2) # right_lines))"

definition process_lane_lines :: "line list \<Rightarrow> lane_info \<Rightarrow> lane_info" where
  "process_lane_lines lines li =
     (if lines = [] then li
      else let (left_lines, right_lines) = split_lines (frame_width li div 2) lines in
        (case (left_lines, right_lines) of
           (l # ls, r # rs) \<Rightarrow>
             (let (lx1, ly1, lx2, ly2) = max_by line_mid_x l ls;
                  (rx1, ry1, rx2, ry2) = min_by line_mid_x r rs
              in li\<lparr>lane_boundaries := lane_boundaries li @
                     [(((lx1, ly1), (lx2, ly2)), ((rx1, ry1), (rx2, ry2)))]\<rparr>)
         | _ \<Rightarrow> li))"

text \<open>The \<^verbatim>\<open>for ... enumerate ... break\<close> loops: the index of the first lane containing x.\<close>

fun find_lane :: "real \<Rightarrow> (boundary \<times> boundary) list \<Rightarrow> nat \<Rightarrow> nat option" where
  "find_lane x [] i = None"
| "find_lane x ((left_boundary, right_boundary) # bs) i =
     (if boundary_x left_boundary \<le> x \<and> x \<le> boundary_x right_boundary then Some i
      else find_lane x bs (Suc i))"

definition lane_change_threshold :: int where
  "lane_change_threshold = 30"

text \<open>
  \<^verbatim>\<open>_detect_ego_position\<close>: the detector's own state is \<^verbatim>\<open>ego_lane_history\<close>, passed in
  and returned.
\<close>

definition detect_ego_position :: "lane_info \<Rightarrow> int list \<Rightarrow> lane_info \<times> int list" where
  "detect_ego_position li ego_lane_history =
     (if lane_boundaries li = [] then (li, ego_lane_history)
      else
        let ego_x = frame_width li div 2;
            li1 = (case find_lane (real_of_int ego_x) (lane_boundaries li) 0 of
                     Some i \<Rightarrow> li\<lparr>ego_lane_id := int i\<rparr>
                   | None \<Rightarrow> li);
            h1 = ego_lane_history @ [ego_x];
            h2 = (if length h1 > 10 then tl h1 else h1)
        in if length h2 \<ge> 5 then
             (let recent_movement = last h2 - h2 ! (length h2 - 5) in
              if \<bar>recent_movement\<bar> > lane_change_threshold
              then (li1\<lparr>lane_change_detected := True,
                        lane_change_direction :=
                          (if recent_movement > 0 then ''right'' else ''left'')\<rparr>, h2)
              else (li1, h2))
           else (li1, h2))"

text \<open>
  \<^verbatim>\<open>detect_lanes\<close>: the image processing (grey scale, Canny, \<^verbatim>\<open>cv2.HoughLinesP\<close>) is an
  external library; its output \<^verbatim>\<open>lines\<close> (\<^verbatim>\<open>None\<close> or a list of segments in the lower
  half of the frame) is a parameter, with the size of the frame.
\<close>

definition detect_lanes ::
  "int \<Rightarrow> int \<Rightarrow> line list option \<Rightarrow> int list \<Rightarrow> lane_info \<times> int list" where
  "detect_lanes height width lines ego_lane_history =
     (let li0 = LaneInfo_init\<lparr>frame_width := width, frame_height := height\<rparr>;
          roi_start = height div 2;
          li1 = (case lines of
                   None \<Rightarrow> li0
                 | Some ls \<Rightarrow>
                     process_lane_lines
                       (map (\<lambda>(x1, y1, x2, y2). (x1, y1 + roi_start, x2, y2 + roi_start)) ls) li0)
      in detect_ego_position li1 ego_lane_history)"

type_synonym bbox = "real \<times> real \<times> real \<times> real"

definition get_vehicle_lane :: "bbox \<Rightarrow> lane_info \<Rightarrow> int" where
  "get_vehicle_lane vehicle_bbox li =
     (if lane_boundaries li = [] then 0
      else
        let vehicle_center_x = (case vehicle_bbox of (b0, b1, b2, b3) \<Rightarrow> (b0 + b2) / 2) in
        (case find_lane vehicle_center_x (lane_boundaries li) 0 of
           Some i \<Rightarrow> int i
         | None \<Rightarrow>
             (if vehicle_center_x < real_of_int (frame_width li div 2) then - 1 else 1)))"


section \<open>Collision predictor\<close>

text \<open>
  A tracked object is a dictionary read with \<^verbatim>\<open>.get(key, default)\<close>: each key the
  analyzer reads may be absent. A box always has its four coordinates.
\<close>

record object_dict =
  class_name :: "string option"
  bbox :: "bbox option"
  track_id :: "int option"

definition get_class_name :: "object_dict \<Rightarrow> string" where
  "get_class_name obj = (case class_name obj of Some c \<Rightarrow> c | None \<Rightarrow> [])"

definition get_bbox :: "object_dict \<Rightarrow> bbox" where
  "get_bbox obj = (case bbox obj of Some b \<Rightarrow> b | None \<Rightarrow> (0, 0, 0, 0))"

definition get_track_id :: "object_dict \<Rightarrow> int" where
  "get_track_id obj = (case track_id obj of Some i \<Rightarrow> i | None \<Rightarrow> 0)"

text \<open>\<^verbatim>\<open>str.lower\<close>, on the ASCII letters.\<close>

definition lower_char :: "char \<Rightarrow> char" where
  "lower_char c =
     (case map_of (zip ''ABCDEFGHIJKLMNOPQRSTUVWXYZ'' ''abcdefghijklmnopqrstuvwxyz'') c of
        Some d \<Rightarrow> d
      | None \<Rightarrow> c)"

definition lower :: "string \<Rightarrow> string" where
  "lower s = map lower_char s"

definition is_vehicle :: "object_dict \<Rightarrow> bool" where
  "is_vehicle obj \<longleftrightarrow>
     lower (get_class_name obj) \<in> set [''car'', ''truck'', ''bus'', ''motorcycle'']"

record movement_info =
  movement_direction :: string
  relative_speed :: real
  is_approaching :: bool
  is_changing_lanes :: bool
  m_lane_change_direction :: string

record threat_assessment =
  is_threat :: bool
  threat_type :: string
  threat_score :: int

record threat_analysis =
  ta_object :: object_dict
  ta_is_threat :: bool
  ta_threat_type :: string
  ta_threat_score :: int
  ta_distance :: real
  ta_ttc :: pyfloat
  ta_vehicle_lane :: int
  ta_movement :: movement_info

text \<open>The persistent state \<^verbatim>\<open>vehicle_history\<close>: track id to the list of recent centres.\<close>

type_synonym vehicle_history = "int \<Rightarrow> (real \<times> real) list option"

definition max_history_frames :: nat where
  "max_history_frames = 10"

definition estimate_distance_fast :: "config \<Rightarrow> object_dict \<Rightarrow> int \<Rightarrow> real" where
  "estimate_distance_fast cfg obj frame_h =
     (let cls = lower (get_class_name obj);
          object_height_pixels = (case get_bbox obj of (b0, b1, b2, b3) \<Rightarrow> b3 - b1)
      in if object_height_pixels \<le> 0 then 50
         else
           let known_height =
                 (case known_object_sizes cfg cls of
                    None \<Rightarrow> 1.5
                  | Some d \<Rightarrow> (case d ''height'' of None \<Rightarrow> 1.5 | Some h \<Rightarrow> h));
               focal_length = real_of_int frame_h * 0.8;
               distance = (known_height * focal_length) / object_height_pixels
           in max 1 (min distance 100))"

definition analyze_vehicle_movement ::
  "vehicle_history \<Rightarrow> object_dict \<Rightarrow> int \<Rightarrow> movement_info \<times> vehicle_history" where
  "analyze_vehicle_movement vh vehicle tid =
     (let current_center = (case get_bbox vehicle of (b0, b1, b2, b3) \<Rightarrow> ((b0 + b2) / 2, (b1 + b3) / 2));
          h1 = (case vh tid of None \<Rightarrow> [] | Some h \<Rightarrow> h) @ [current_center];
          positions = (if length h1 > max_history_frames then tl h1 else h1);
          vh' = vh(tid \<mapsto> positions);
          m0 = \<lparr>movement_direction = ''unknown'', relative_speed = 0, is_approaching = False,
                is_changing_lanes = False, m_lane_change_direction = ''none''\<rparr>
      in if length positions \<ge> 3 then
           (let dx = fst (last positions) - fst (hd positions);
                dy = snd (last positions) - snd (hd positions);
                m1 = (if \<bar>dx\<bar> > \<bar>dy\<bar> then
                        (if dx > 0 then m0\<lparr>movement_direction := ''right''\<rparr>
                         else m0\<lparr>movement_direction := ''left''\<rparr>)
                      else
                        (if dy > 0 then m0\<lparr>movement_direction := ''down'', is_approaching := True\<rparr>
                         else m0\<lparr>movement_direction := ''up''\<rparr>));
                m2 = m1\<lparr>relative_speed := sqrt (dx * dx + dy * dy) / real (length positions)\<rparr>;
                m3 = (if \<bar>dx\<bar> > 20 then
                        m2\<lparr>is_changing_lanes := True,
                           m_lane_change_direction := (if dx > 0 then ''right'' else ''left'')\<rparr>
                      else m2)
            in (m3, vh'))
         else (m0, vh'))"

text \<open>
  \<^verbatim>\<open>_calculate_intelligent_ttc\<close>. A division by zero raises and the handler returns
  infinity; the test on the speed comes first.
\<close>

definition calculate_intelligent_ttc :: "real \<Rightarrow> movement_info \<Rightarrow> pyfloat" where
  "calculate_intelligent_ttc distance m =
     (if \<not> is_approaching m then PInf
      else
        let speed = relative_speed m in
        if speed < 0.1 then PInf
        else
          let estimated_speed_mps = speed * 0.1 in
          if estimated_speed_mps = 0 then PInf
          else Fin (max 0.1 (distance / estimated_speed_mps)))"

text \<open>
  \<^verbatim>\<open>_assess_actual_threat\<close>, in its two parts: the chain of cases that sets the flag, the
  type and the base score, and the adjustment of the score by the time to collision.
\<close>

definition no_threat :: threat_assessment where
  "no_threat = \<lparr>is_threat = False, threat_type = ''none'', threat_score = 0\<rparr>"

definition threat_cases ::
  "config \<Rightarrow> int \<Rightarrow> lane_info \<Rightarrow> movement_info \<Rightarrow> real \<Rightarrow> threat_assessment" where
  "threat_cases cfg vehicle_lane li m distance =
     (let ego_lane = ego_lane_id li in
      if vehicle_lane = ego_lane then
        (if distance < medium_risk_distance cfg then
           (if \<not> is_approaching m \<or> relative_speed m < 2 then
              \<lparr>is_threat = True, threat_type = ''same_lane'',
               threat_score =
                 (if distance < critical_distance cfg then 90
                  else if distance < high_risk_distance cfg then 70
                  else 50)\<rparr>
            else no_threat)
         else no_threat)
      else if vehicle_lane = - 1 then
        (if lane_change_detected li \<and> lane_change_direction li = ''left'' then
           (if distance < high_risk_distance cfg \<and> is_approaching m then
              \<lparr>is_threat = True, threat_type = ''oncoming'', threat_score = 95\<rparr>
            else no_threat)
         else no_threat)
      else if \<bar>vehicle_lane - ego_lane\<bar> = 1 then
        (if is_changing_lanes m then
           (let our_lane_direction = (if vehicle_lane < ego_lane then ''right'' else ''left'') in
            if m_lane_change_direction m = our_lane_direction then
              (if distance < medium_risk_distance cfg then
                 \<lparr>is_threat = True, threat_type = ''lane_change'', threat_score = 60\<rparr>
               else no_threat)
            else no_threat)
         else no_threat)
      else if lane_change_detected li then
        (let target_lane = ego_lane + (if lane_change_direction li = ''right'' then 1 else - 1) in
         if vehicle_lane = target_lane then
           (if distance < medium_risk_distance cfg then
              \<lparr>is_threat = True, threat_type = ''lane_change'', threat_score = 70\<rparr>
            else no_threat)
         else no_threat)
      else no_threat)"

definition adjust_for_ttc :: "config \<Rightarrow> pyfloat \<Rightarrow> threat_assessment \<Rightarrow> threat_assessment" where
  "adjust_for_ttc cfg ttc a =
     (if is_threat a \<and> pf_less ttc (critical_ttc cfg)
        then a\<lparr>threat_score := min 100 (threat_score a + 20)\<rparr>
      else if is_threat a \<and> pf_less ttc (high_risk_ttc cfg)
        then a\<lparr>threat_score := min 100 (threat_score a + 10)\<rparr>
      else a)"

definition assess_actual_threat ::
  "config \<Rightarrow> int \<Rightarrow> lane_info \<Rightarrow> movement_info \<Rightarrow> real \<Rightarrow> pyfloat \<Rightarrow> threat_assessment" where
  "assess_actual_threat cfg vehicle_lane li m distance ttc =
     adjust_for_ttc cfg ttc (threat_cases cfg vehicle_lane li m distance)"

definition analyze_vehicle_threat ::
  "config \<Rightarrow> vehicle_history \<Rightarrow> object_dict \<Rightarrow> lane_info \<Rightarrow> int \<Rightarrow> int \<Rightarrow>
     threat_analysis \<times> vehicle_history" where
  "analyze_vehicle_threat cfg vh vehicle li frame_h frame_w =
     (let distance = estimate_distance_fast cfg vehicle frame_h;
          vehicle_lane = get_vehicle_lane (get_bbox vehicle) li;
          (m, vh') = analyze_vehicle_movement vh vehicle (get_track_id vehicle);
          ttc = calculate_intelligent_ttc distance m;
          a = assess_actual_threat cfg vehicle_lane li m distance ttc
      in (\<lparr>ta_object = vehicle, ta_is_threat = is_threat a, ta_threat_type = threat_type a,
           ta_threat_score = threat_score a, ta_distance = distance, ta_ttc = ttc,
           ta_vehicle_lane = vehicle_lane, ta_movement = m\<rparr>, vh'))"


text \<open>
  The analyses of the vehicles of a frame, in the order of the list: what
  \<^verbatim>\<open>_analyze_vehicle_threat\<close> returns for each vehicle, each call starting from the history
  that the calls before it have left.
\<close>

fun vehicle_analyses ::
  "config \<Rightarrow> lane_info \<Rightarrow> int \<Rightarrow> int \<Rightarrow> vehicle_history \<Rightarrow> object_dict list \<Rightarrow>
     threat_analysis list" where
  "vehicle_analyses cfg li frame_h frame_w vh [] = []"
| "vehicle_analyses cfg li frame_h frame_w vh (v # vs) =
     fst (analyze_vehicle_threat cfg vh v li frame_h frame_w) #
     vehicle_analyses cfg li frame_h frame_w
       (snd (analyze_vehicle_threat cfg vh v li frame_h frame_w)) vs"

text \<open>
  The result dictionary of \<^verbatim>\<open>analyze_collision_risk\<close>. The key \<^verbatim>\<open>threat_score\<close> is the
  field \<open>max_score\<close>; \<^verbatim>\<open>analysis_time_ms\<close> is a wall-clock reading and is left out.
\<close>

record frame_risk_result =
  risk_level :: string
  max_score :: int
  primary_threat :: "object_dict option"
  threatening_objects :: "threat_analysis list"
  recommendations :: "string list"
  total_objects :: nat
  result_lane_info :: "lane_info option"
  same_lane_threats :: nat
  oncoming_threats :: nat
  lane_change_threats :: nat

definition initial_result :: "nat \<Rightarrow> frame_risk_result" where
  "initial_result n =
     \<lparr>risk_level = ''None'', max_score = 0, primary_threat = None, threatening_objects = [],
      recommendations = [], total_objects = n, result_lane_info = None,
      same_lane_threats = 0, oncoming_threats = 0, lane_change_threats = 0\<rparr>"

text \<open>The variables the loop over the vehicles updates.\<close>

record loop_state =
  ls_history :: vehicle_history
  ls_threatening :: "threat_analysis list"
  ls_same_lane :: nat
  ls_oncoming :: nat
  ls_lane_change :: nat
  ls_max_threat_score :: int
  ls_primary_threat :: "object_dict option"

definition loop_body ::
  "config \<Rightarrow> lane_info \<Rightarrow> int \<Rightarrow> int \<Rightarrow> object_dict \<Rightarrow> loop_state \<Rightarrow> loop_state" where
  "loop_body cfg li frame_h frame_w vehicle st =
     (let (ta, vh') = analyze_vehicle_threat cfg (ls_history st) vehicle li frame_h frame_w;
          st1 = st\<lparr>ls_history := vh'\<rparr>
      in if ta_is_threat ta then
           (let st2 = st1\<lparr>ls_threatening := ls_threatening st1 @ [ta]\<rparr>;
                st3 = (if ta_threat_type ta = ''same_lane''
                         then st2\<lparr>ls_same_lane := ls_same_lane st2 + 1\<rparr>
                       else if ta_threat_type ta = ''oncoming''
                         then st2\<lparr>ls_oncoming := ls_oncoming st2 + 1\<rparr>
                       else if ta_threat_type ta = ''lane_change''
                         then st2\<lparr>ls_lane_change := ls_lane_change st2 + 1\<rparr>
                       else st2)
            in if ta_threat_score ta > ls_max_threat_score st3
               then st3\<lparr>ls_max_threat_score := ta_threat_score ta, ls_primary_threat := Some vehicle\<rparr>
               else st3)
         else st1)"

fun analyze_vehicles ::
  "config \<Rightarrow> lane_info \<Rightarrow> int \<Rightarrow> int \<Rightarrow> object_dict list \<Rightarrow> loop_state \<Rightarrow> loop_state" where
  "analyze_vehicles cfg li frame_h frame_w [] st = st"
| "analyze_vehicles cfg li frame_h frame_w (v # vs) st =
     analyze_vehicles cfg li frame_h frame_w vs (loop_body cfg li frame_h frame_w v st)"

definition risk_level_of :: "int \<Rightarrow> string" where
  "risk_level_of max_threat_score =
     (if max_threat_score \<ge> 80 then ''Critical''
      else if max_threat_score \<ge> 60 then ''High''
      else if max_threat_score \<ge> 40 then ''Medium''
      else if max_threat_score \<ge> 20 then ''Low''
      else ''None'')"

definition generate_intelligent_recommendations ::
  "string \<Rightarrow> threat_analysis list \<Rightarrow> lane_info \<Rightarrow> string list" where
  "generate_intelligent_recommendations level threats li =
     (if threats = [] then []
      else
        let same_lane = filter (\<lambda>t. ta_threat_type t = ''same_lane'') threats;
            oncoming = filter (\<lambda>t. ta_threat_type t = ''oncoming'') threats;
            lane_change = filter (\<lambda>t. ta_threat_type t = ''lane_change'') threats
        in if level = ''Critical'' then
             [''EMERGENCY BRAKE'']
             @ (if same_lane \<noteq> [] then [''VEHICLE AHEAD TOO CLOSE''] else [])
             @ (if oncoming \<noteq> [] then [''ABORT LANE CHANGE - ONCOMING TRAFFIC''] else [])
           else if level = ''High'' then
             (if same_lane \<noteq> [] then [''SLOW DOWN - FOLLOWING TOO CLOSE''] else [])
             @ (if lane_change \<noteq> [] then [''VEHICLE CHANGING LANES''] else [])
             @ (if oncoming \<noteq> [] then [''CAUTION - ONCOMING DURING LANE CHANGE''] else [])
           else if level = ''Medium'' then
             (if same_lane \<noteq> [] then [''MAINTAIN SAFE DISTANCE''] else [])
             @ (if lane_change \<noteq> [] then [''MONITOR ADJACENT LANES''] else [])
             @ (if lane_change_detected li then [''LANE CHANGE IN PROGRESS''] else [])
           else if level = ''Low'' then
             [''STAY ALERT'']
             @ (if lane_change_detected li then [''COMPLETE LANE CHANGE SAFELY''] else [])
           else [])"

text \<open>
  \<^verbatim>\<open>analyze_collision_risk\<close>. The frame enters through its size and through the lane
  information that \<^verbatim>\<open>detect_lanes\<close> computes from it, which is only asked for when the
  list of objects is not empty. The function returns the result and the new history.
\<close>

definition analyze_collision_risk ::
  "config \<Rightarrow> vehicle_history \<Rightarrow> object_dict list \<Rightarrow> lane_info \<Rightarrow> int \<Rightarrow> int \<Rightarrow>
     frame_risk_result \<times> vehicle_history" where
  "analyze_collision_risk cfg vh tracked_objects li frame_h frame_w =
     (let result = initial_result (length tracked_objects) in
      if tracked_objects = [] then (result, vh)
      else
        let result1 = result\<lparr>result_lane_info := Some li\<rparr>;
            vehicles = filter is_vehicle tracked_objects
        in if vehicles = [] then (result1, vh)
           else
             let st = analyze_vehicles cfg li frame_h frame_w vehicles
                        \<lparr>ls_history = vh, ls_threatening = [], ls_same_lane = 0,
                         ls_oncoming = 0, ls_lane_change = 0, ls_max_threat_score = 0,
                         ls_primary_threat = None\<rparr>;
                 level = risk_level_of (ls_max_threat_score st);
                 recs = generate_intelligent_recommendations level (ls_threatening st) li
             in (result1\<lparr>risk_level := level, max_score := ls_max_threat_score st,
                   primary_threat := ls_primary_threat st,
                   threatening_objects := ls_threatening st, recommendations := recs,
                   same_lane_threats := ls_same_lane st, oncoming_threats := ls_oncoming st,
                   lane_change_threats := ls_lane_change st\<rparr>, ls_history st))"


text \<open>
  The caller's loop: one call of \<^verbatim>\<open>analyze_collision_risk\<close> per frame, on the same
  analyzer, so that the history left by a frame is the history the next one starts from.
\<close>

fun analyze_frames ::
  "config \<Rightarrow> vehicle_history \<Rightarrow> (object_dict list \<times> lane_info \<times> int \<times> int) list \<Rightarrow> vehicle_history" where
  "analyze_frames cfg vh [] = vh"
| "analyze_frames cfg vh ((objs, li, frame_h, frame_w) # fs) =
     analyze_frames cfg (snd (analyze_collision_risk cfg vh objs li frame_h frame_w)) fs"

text \<open>Every list of positions in the history has at most \<^verbatim>\<open>max_history_frames\<close> entries.\<close>

definition history_bounded :: "vehicle_history \<Rightarrow> bool" where
  "history_bounded vh \<longleftrightarrow> (\<forall>k h. vh k = Some h \<longrightarrow> length h \<le> max_history_frames)"

text \<open>
  The ordinal of the risk levels in the words of the specification:
  None < Low < Medium < High < Critical.
\<close>

definition risk_rank :: "string \<Rightarrow> nat" where
  "risk_rank l =
     (if l = ''Critical'' then 4 else if l = ''High'' then 3 else if l = ''Medium'' then 2
      else if l = ''Low'' then 1 else 0)"

text \<open>The greatest score of a list of threats, and 0 for the empty list.\<close>

definition max_of_scores :: "threat_analysis list \<Rightarrow> int" where
  "max_of_scores ts = Max (insert 0 (ta_threat_score ` set ts))"

section \<open>Per-track estimator\<close>

text \<open>
  Class \<^verbatim>\<open>TrackedObject\<close> of the module \<^verbatim>\<open>tracker\<close>, with the fields that the estimate of
  the time to collision reads and writes. The constructor sets \<^verbatim>\<open>time_to_collision\<close> to
  infinity.
\<close>

record tracked_object =
  box :: "int \<times> int \<times> int \<times> int"
  position_history :: "(real \<times> real \<times> real) list"
  velocity :: "real \<times> real"
  real_world_velocity :: "real \<times> real"
  distance_estimate :: real
  time_to_collision :: pyfloat

text \<open>\<^verbatim>\<open>np.linalg.norm\<close> of a vector of two components.\<close>

definition linalg_norm :: "real \<times> real \<Rightarrow> real" where
  "linalg_norm v = sqrt (fst v * fst v + snd v * snd v)"

text \<open>\<^verbatim>\<open>_calculate_time_to_collision\<close>; the object is returned with its new field.\<close>

definition calculate_time_to_collision :: "tracked_object \<Rightarrow> tracked_object" where
  "calculate_time_to_collision t =
     (if distance_estimate t \<le> 0 then t\<lparr>time_to_collision := PInf\<rparr>
      else
        let t1 = (if length (position_history t) \<ge> 2 then
                    (let is_approaching = snd (velocity t) > 0 in
                     if is_approaching \<and> linalg_norm (real_world_velocity t) > 0.1 then
                       (let closing_speed = linalg_norm (real_world_velocity t) in
                        t\<lparr>time_to_collision := Fin (distance_estimate t / closing_speed)\<rparr>)
                     else t\<lparr>time_to_collision := PInf\<rparr>)
                  else t)
        in if pf_greater (time_to_collision t1) 60 then t1\<lparr>time_to_collision := PInf\<rparr>
           else t1)"

text \<open>A time to collision is plus infinity or a finite value above 0.\<close>

fun ttc_wellformed :: "pyfloat \<Rightarrow> bool" where
  "ttc_wellformed PInf = True"
| "ttc_wellformed (Fin x) = (0 < x)"

section \<open>Kalman tracker\<close>

text \<open>The exception an index out of range raises.\<close>

datatype py_error = IndexError

text \<open>A box of the detector and of the tracker, in integer pixels.\<close>

type_synonym ibox = "int \<times> int \<times> int \<times> int"

record detection =
  det_bbox :: ibox
  det_confidence :: real
  det_class_name :: string

text \<open>
  The external libraries. The numbers of a \<^verbatim>\<open>FastKalmanFilter\<close> (the state vector and the
  covariance, numpy arrays of 32-bit floats) are a value of a type \<open>'k\<close>: \<open>kf_init\<close> is
  what the constructor computes from a box, \<open>kf_predict\<close> and \<open>kf_correct\<close> are the
  matrix steps of \<^verbatim>\<open>predict\<close> and \<^verbatim>\<open>update\<close>, \<open>kf_state\<close> reads the state vector
  (x, y, vx, vy). \<open>linear_sum_assignment\<close> is scipy's solver, from a cost matrix to the
  pairs of row and column indices it assigns.
\<close>

record 'k externals =
  kf_init :: "ibox \<Rightarrow> 'k"
  kf_predict :: "'k \<Rightarrow> 'k"
  kf_correct :: "'k \<Rightarrow> ibox \<Rightarrow> 'k"
  kf_state :: "'k \<Rightarrow> real \<times> real \<times> real \<times> real"
  linear_sum_assignment :: "real list list \<Rightarrow> (nat \<times> nat) list"

text \<open>
  An instance of \<^verbatim>\<open>FastKalmanFilter\<close> with the attributes that the tracker adds to it
  (\<^verbatim>\<open>id\<close>, \<^verbatim>\<open>class_name\<close>, \<^verbatim>\<open>confidence\<close>).
\<close>

record 'k track =
  kf :: 'k
  trk_bbox :: ibox
  age :: nat
  hits :: nat
  time_since_update :: nat
  trk_id :: int
  trk_class_name :: string
  trk_confidence :: real

definition FastKalmanFilter_init :: "'k externals \<Rightarrow> detection \<Rightarrow> int \<Rightarrow> 'k track" where
  "FastKalmanFilter_init ex det new_id =
     \<lparr>kf = kf_init ex (det_bbox det), trk_bbox = det_bbox det, age = 0, hits = 1,
      time_since_update = 0, trk_id = new_id, trk_class_name = det_class_name det,
      trk_confidence = det_confidence det\<rparr>"

text \<open>\<^verbatim>\<open>FastKalmanFilter.predict\<close> and \<^verbatim>\<open>FastKalmanFilter.update\<close>.\<close>

definition predict :: "'k externals \<Rightarrow> 'k track \<Rightarrow> 'k track" where
  "predict ex t =
     t\<lparr>kf := kf_predict ex (kf t), age := age t + 1,
       time_since_update := time_since_update t + 1\<rparr>"

definition track_update :: "'k externals \<Rightarrow> 'k track \<Rightarrow> ibox \<Rightarrow> 'k track" where
  "track_update ex t b =
     t\<lparr>kf := kf_correct ex (kf t) b, trk_bbox := b, hits := hits t + 1,
       time_since_update := 0\<rparr>"

text \<open>Python's \<^verbatim>\<open>int\<close> of a float rounds towards zero.\<close>

definition py_int :: "real \<Rightarrow> int" where
  "py_int r = (if 0 \<le> r then \<lfloor>r\<rfloor> else \<lceil>r\<rceil>)"

text \<open>\<^verbatim>\<open>FastKalmanFilter.get_bbox\<close>.\<close>

definition track_get_bbox :: "'k externals \<Rightarrow> 'k track \<Rightarrow> ibox" where
  "track_get_bbox ex t =
     (if time_since_update t > 0 then
        (case kf_state ex (kf t) of (cx, cy, vx, vy) \<Rightarrow>
         case trk_bbox t of (b0, b1, b2, b3) \<Rightarrow>
           let w = real_of_int (b2 - b0); h = real_of_int (b3 - b1)
           in (py_int (cx - w / 2), py_int (cy - h / 2), py_int (cx + w / 2), py_int (cy + h / 2)))
      else trk_bbox t)"

text \<open>Class \<^verbatim>\<open>KalmanTracker\<close>; the list of timings is left out.\<close>

record 'k kalman_tracker =
  trackers :: "'k track list"
  next_id :: int
  max_age :: nat
  min_hits :: nat
  iou_threshold :: real
  frame_count :: nat

definition KalmanTracker_init :: "'k kalman_tracker" where
  "KalmanTracker_init =
     \<lparr>trackers = [], next_id = 1, max_age = 5, min_hits = 2, iou_threshold = 0.3,
      frame_count = 0\<rparr>"

definition calculate_iou_fast :: "ibox \<Rightarrow> ibox \<Rightarrow> real" where
  "calculate_iou_fast bbox1 bbox2 =
     (case bbox1 of (a0, a1, a2, a3) \<Rightarrow>
      case bbox2 of (b0, b1, b2, b3) \<Rightarrow>
        let x1 = max a0 b0; y1 = max a1 b1; x2 = min a2 b2; y2 = min a3 b3
        in if x2 \<le> x1 \<or> y2 \<le> y1 then 0
           else
             let intersection = (x2 - x1) * (y2 - y1);
                 area1 = (a2 - a0) * (a3 - a1);
                 area2 = (b2 - b0) * (b3 - b1);
                 union = area1 + area2 - intersection
             in if union > 0 then real_of_int intersection / real_of_int union else 0)"

text \<open>
  \<^verbatim>\<open>_fast_associate\<close>. Reading the matrix at a pair outside of it raises.
\<close>

definition fast_associate ::
  "'k externals \<Rightarrow> real \<Rightarrow> ibox list \<Rightarrow> ibox list \<Rightarrow>
     py_error + ((nat \<times> nat) list \<times> nat list \<times> nat list)" where
  "fast_associate ex threshold dets trks =
     (if trks = [] then Inr ([], [0..<length dets], [])
      else
        let iou_matrix = map (\<lambda>d. map (\<lambda>t. calculate_iou_fast d t) trks) dets
        in if min (length dets) (length trks) > 0 then
             (let cost_matrix = map (map (\<lambda>x. 1 - x)) iou_matrix;
                  pairs = linear_sum_assignment ex cost_matrix
              in if list_all (\<lambda>(d, t). d < length dets \<and> t < length trks) pairs then
                   (let matches = filter (\<lambda>(d, t). iou_matrix ! d ! t \<ge> threshold) pairs;
                        unmatched_dets =
                          filter (\<lambda>i. i \<notin> set (map fst matches)) [0..<length dets];
                        unmatched_trks =
                          filter (\<lambda>i. i \<notin> set (map snd matches)) [0..<length trks]
                    in Inr (matches, unmatched_dets, unmatched_trks))
                 else Inl IndexError)
           else Inr ([], [0..<length dets], [0..<length trks]))"

text \<open>
  The first steps of \<^verbatim>\<open>KalmanTracker.update\<close>: the trackers predict, and their boxes are
  matched with the boxes of the detections.
\<close>

definition associate ::
  "'k externals \<Rightarrow> 'k kalman_tracker \<Rightarrow> detection list \<Rightarrow>
     py_error + ((nat \<times> nat) list \<times> nat list \<times> nat list)" where
  "associate ex st detections =
     (let predicted_bboxes = map (track_get_bbox ex) (map (predict ex) (trackers st));
          detection_bboxes = map det_bbox detections
      in if length (trackers st) > 0 \<and> length detection_bboxes > 0
         then fast_associate ex (iou_threshold st) detection_bboxes predicted_bboxes
         else Inr ([], [0..<length detections], [0..<length (trackers st)]))"

text \<open>The loop over the matches.\<close>

fun apply_matches ::
  "'k externals \<Rightarrow> detection list \<Rightarrow> (nat \<times> nat) list \<Rightarrow> 'k track list \<Rightarrow> 'k track list" where
  "apply_matches ex detections [] ts = ts"
| "apply_matches ex detections ((det_idx, trk_idx) # ms) ts =
     apply_matches ex detections ms
       (ts[trk_idx := track_update ex (ts ! trk_idx) (det_bbox (detections ! det_idx))])"

text \<open>The loop over the unmatched detections, which creates the new trackers.\<close>

fun spawn ::
  "'k externals \<Rightarrow> detection list \<Rightarrow> nat list \<Rightarrow> 'k track list \<Rightarrow> int \<Rightarrow> 'k track list \<times> int" where
  "spawn ex detections [] ts nid = (ts, nid)"
| "spawn ex detections (det_idx # is) ts nid =
     (if det_confidence (detections ! det_idx) > 0.5
      then spawn ex detections is
             (ts @ [FastKalmanFilter_init ex (detections ! det_idx) nid]) (nid + 1)
      else spawn ex detections is ts nid)"

text \<open>The dictionary emitted for a tracker.\<close>

record tracked_output =
  out_track_id :: int
  out_bbox :: ibox
  out_class_name :: string
  out_confidence :: real
  out_center :: "int \<times> int"
  out_velocity :: "real \<times> real"
  out_speed :: real
  out_age :: nat
  out_hits :: nat
  out_area :: int

definition snapshot :: "'k externals \<Rightarrow> 'k track \<Rightarrow> tracked_output" where
  "snapshot ex t =
     (case track_get_bbox ex t of (b0, b1, b2, b3) \<Rightarrow>
      case kf_state ex (kf t) of (cx, cy, vx, vy) \<Rightarrow>
        \<lparr>out_track_id = trk_id t, out_bbox = (b0, b1, b2, b3),
         out_class_name = trk_class_name t, out_confidence = trk_confidence t,
         out_center = ((b0 + b2) div 2, (b1 + b3) div 2), out_velocity = (vx, vy),
         out_speed = sqrt (vx * vx + vy * vy) * 2, out_age = age t, out_hits = hits t,
         out_area = (b2 - b0) * (b3 - b1)\<rparr>)"

text \<open>The loop that generates the output.\<close>

fun emit :: "'k externals \<Rightarrow> nat \<Rightarrow> 'k track list \<Rightarrow> tracked_output list" where
  "emit ex mh [] = []"
| "emit ex mh (t # ts) =
     (if hits t \<ge> mh \<or> time_since_update t = 0 then snapshot ex t # emit ex mh ts
      else emit ex mh ts)"

text \<open>\<^verbatim>\<open>KalmanTracker.update\<close>: the output and the new state of the tracker, or the exception.\<close>

definition update ::
  "'k externals \<Rightarrow> 'k kalman_tracker \<Rightarrow> detection list \<Rightarrow>
     py_error + (tracked_output list \<times> 'k kalman_tracker)" where
  "update ex st detections =
     (case associate ex st detections of
        Inl e \<Rightarrow> Inl e
      | Inr (matches, unmatched_dets, unmatched_trks) \<Rightarrow>
          let ts1 = map (predict ex) (trackers st);
              ts2 = apply_matches ex detections matches ts1;
              (ts3, nid) = spawn ex detections unmatched_dets ts2 (next_id st);
              ts4 = filter (\<lambda>t. time_since_update t \<le> max_age st) ts3;
              tracked_objects = emit ex (min_hits st) ts4
          in Inr (tracked_objects,
                  st\<lparr>trackers := ts4, next_id := nid, frame_count := frame_count st + 1\<rparr>))"

text \<open>A sequence of calls of \<^verbatim>\<open>update\<close>, one per frame, on the same tracker.\<close>

fun run ::
  "'k externals \<Rightarrow> 'k kalman_tracker \<Rightarrow> detection list list \<Rightarrow>
     py_error + (tracked_output list list \<times> 'k kalman_tracker)" where
  "run ex st [] = Inr ([], st)"
| "run ex st (d # ds) =
     (case update ex st d of
        Inl e \<Rightarrow> Inl e
      | Inr (out, st1) \<Rightarrow>
          (case run ex st1 ds of
             Inl e \<Rightarrow> Inl e
           | Inr (outs, st2) \<Rightarrow> Inr (out # outs, st2)))"

text \<open>
  The identities of the trackers are distinct and below the next identity. This holds
  of a new \<^verbatim>\<open>KalmanTracker\<close> and every update keeps it.
\<close>

definition tracker_inv :: "'k kalman_tracker \<Rightarrow> bool" where
  "tracker_inv st \<longleftrightarrow>
     distinct (map trk_id (trackers st)) \<and> (\<forall>t\<in>set (trackers st). trk_id t < next_id st)"

text \<open>
  What the tracker relies on from the solver: it returns row and column indices of the
  matrix it is given.
\<close>

definition solver_in_range :: "'k externals \<Rightarrow> bool" where
  "solver_in_range ex \<longleftrightarrow>
     (\<forall>cost. list_all (\<lambda>(d, t). d < length cost \<and> t < length (hd cost))
        (linear_sum_assignment ex cost))"

section \<open>Example inputs\<close>

text \<open>
  A configuration with the thresholds of the documentation's examples (critical 10 m,
  medium 20 m) and an empty table of object sizes, a movement analysis of an object with
  no history, a car, and lane information with ego changing to the right.
\<close>

definition example_config :: config where
  "example_config =
     \<lparr>critical_distance = 10, high_risk_distance = 15, medium_risk_distance = 20,
      critical_ttc = 2, high_risk_ttc = 4, medium_risk_ttc = 6,
      known_object_sizes = (\<lambda>_. None)\<rparr>"

definition still :: movement_info where
  "still = \<lparr>movement_direction = ''unknown'', relative_speed = 0, is_approaching = False,
     is_changing_lanes = False, m_lane_change_direction = ''none''\<rparr>"

definition car :: "int \<Rightarrow> bbox \<Rightarrow> object_dict" where
  "car i b = \<lparr>class_name = Some ''car'', bbox = Some b, track_id = Some i\<rparr>"

definition changing_right :: lane_info where
  "changing_right =
     LaneInfo_init\<lparr>lane_change_detected := True, lane_change_direction := ''right''\<rparr>"

text \<open>
  Two Hough segments, one on each side of a frame 640 pixels wide, and the movement
  analysis of an object that comes closer at 5 pixels per frame.
\<close>

definition two_lines :: "line list" where
  "two_lines = [(100, 0, 200, 200), (500, 200, 600, 0)]"

definition approaching :: movement_info where
  "approaching = \<lparr>movement_direction = ''down'', relative_speed = 5, is_approaching = True,
     is_changing_lanes = False, m_lane_change_direction = ''none''\<rparr>"

definition person :: "int \<Rightarrow> bbox \<Rightarrow> object_dict" where
  "person i b = \<lparr>class_name = Some ''person'', bbox = Some b, track_id = Some i\<rparr>"

text \<open>The lane information of a frame of 640 by 480 pixels with no lane geometry.\<close>

definition empty_lanes :: lane_info where
  "empty_lanes = LaneInfo_init\<lparr>frame_width := 640, frame_height := 480\<rparr>"

text \<open>Two tracked objects 30 m away, one closing at 3 m/s and one moving away.\<close>

definition closing :: tracked_object where
  "closing = \<lparr>box = (100, 100, 200, 200), position_history = [(0, 150, 150), (1, 150, 155)],
     velocity = (0, 5), real_world_velocity = (0, 3), distance_estimate = 30,
     time_to_collision = PInf\<rparr>"

definition receding :: tracked_object where
  "receding = \<lparr>box = (100, 100, 200, 200), position_history = [(0, 150, 155), (1, 150, 150)],
     velocity = (0, - 5), real_world_velocity = (0, - 3), distance_estimate = 30,
     time_to_collision = Fin 10\<rparr>"

text \<open>
  An instance of the external libraries for the examples: the state vector alone, moved
  by its velocity in a prediction and set on the measured centre in a correction, and a
  solver that assigns row i to column i. Then a detection, a tracker whose only track
  has not been matched for five frames, and the track a first detection creates.
\<close>

definition simple_externals :: "(real \<times> real \<times> real \<times> real) externals" where
  "simple_externals =
     \<lparr>kf_init = (\<lambda>(b0, b1, b2, b3).
         ((real_of_int b0 + real_of_int b2) / 2, (real_of_int b1 + real_of_int b3) / 2, 0, 0)),
      kf_predict = (\<lambda>(x, y, vx, vy). (x + vx, y + vy, vx, vy)),
      kf_correct = (\<lambda>(x, y, vx, vy) (b0, b1, b2, b3).
         ((real_of_int b0 + real_of_int b2) / 2, (real_of_int b1 + real_of_int b3) / 2, vx, vy)),
      kf_state = (\<lambda>k. k),
      linear_sum_assignment = (\<lambda>cost.
         case cost of [] \<Rightarrow> [] | row # _ \<Rightarrow> zip [0..<length cost] [0..<length row])\<rparr>"

definition car_detection :: detection where
  "car_detection = \<lparr>det_bbox = (100, 100, 200, 200), det_confidence = 0.9,
     det_class_name = ''car''\<rparr>"

definition aged_tracker :: "(real \<times> real \<times> real \<times> real) kalman_tracker" where
  "aged_tracker =
     KalmanTracker_init
       \<lparr>trackers := [\<lparr>kf = (150, 150, 0, 0), trk_bbox = (100, 100, 200, 200), age = 6,
                       hits = 3, time_since_update = 5, trk_id = 1,
                       trk_class_name = ''car'', trk_confidence = 0.9\<rparr>],
        next_id := 2\<rparr>"

definition fresh_track :: "int \<Rightarrow> (real \<times> real \<times> real \<times> real) track" where
  "fresh_track i = \<lparr>kf = (150, 150, 0, 0), trk_bbox = (100, 100, 200, 200), age = 0,
                       hits = 1, time_since_update = 0, trk_id = i,
                       trk_class_name = ''car'', trk_confidence = 0.9\<rparr>"

text \<open>
  A frame with three cars in ego's lane, at 16 m, 8 m and (a box of height 0) the default
  50 m, and the analysis of a car with no history in a frame without lane geometry.
\<close>

definition three_cars :: "object_dict list" where
  "three_cars =
     [car 1 (100, 100, 200, 154), car 2 (100, 100, 200, 208), car 3 (100, 100, 200, 100)]"

definition car_analysis :: "int \<Rightarrow> bbox \<Rightarrow> bool \<Rightarrow> string \<Rightarrow> int \<Rightarrow> real \<Rightarrow> threat_analysis" where
  "car_analysis i b threat type score d =
     \<lparr>ta_object = car i b, ta_is_threat = threat, ta_threat_type = type,
      ta_threat_score = score, ta_distance = d, ta_ttc = PInf, ta_vehicle_lane = 0,
      ta_movement = still\<rparr>"

section \<open>Properties of the threat classification\<close>

lemma is_vehicle_car: "is_vehicle (car i b)"
  by (simp add: is_vehicle_def get_class_name_def lower_def lower_char_def car_def)

lemma adjust_is_threat [simp]: "is_threat (adjust_for_ttc cfg ttc a) = is_threat a"
  by (simp add: adjust_for_ttc_def)

lemma adjust_threat_type [simp]: "threat_type (adjust_for_ttc cfg ttc a) = threat_type a"
  by (simp add: adjust_for_ttc_def)

lemma adjust_PInf [simp]: "adjust_for_ttc cfg PInf a = a"
  by (simp add: adjust_for_ttc_def)

lemma ttc_not_approaching: "\<not> is_approaching m \<Longrightarrow> calculate_intelligent_ttc d m = PInf"
  by (simp add: calculate_intelligent_ttc_def)

text \<open>
  Claim C1 says that a vehicle in ego's target lane, closer than the medium distance and
  matched by no earlier case, is a threat of type \<open>lane_change\<close> with base score 70, also
  when the vehicle is not changing lanes itself. The code does not do this: the target
  lane is always next to ego's lane, so the branch of the adjacent lane is entered first
  and the branch of the case "we are changing lanes into their lane" is never reached.
  A vehicle in ego's target lane (not the oncoming lane) that is not changing lanes
  itself is never a threat, at any distance.
\<close>

theorem ego_merge_case_never_fires:
  assumes "lane_change_detected li"
    and "vehicle_lane = ego_lane_id li + (if lane_change_direction li = ''right'' then 1 else - 1)"
    and "vehicle_lane \<noteq> - 1"
    and "\<not> is_changing_lanes m"
  shows "assess_actual_threat cfg vehicle_lane li m distance ttc = no_threat"
proof -
  from assms(2,3) have ne: "vehicle_lane \<noteq> ego_lane_id li"
    and adj: "\<bar>vehicle_lane - ego_lane_id li\<bar> = 1"
    by (auto split: if_splits)
  from ne adj assms(3,4) have "threat_cases cfg vehicle_lane li m distance = no_threat"
    by (simp add: threat_cases_def Let_def)
  then show ?thesis
    by (simp add: assess_actual_threat_def adjust_for_ttc_def no_threat_def)
qed

theorem ego_merge_case_never_fires_witness:
  "lane_change_detected changing_right
   \<and> (1::int) = ego_lane_id changing_right
        + (if lane_change_direction changing_right = ''right'' then 1 else - 1)
   \<and> (1::int) \<noteq> - 1
   \<and> \<not> is_changing_lanes still
   \<and> (15::real) < medium_risk_distance example_config
   \<and> assess_actual_threat example_config 1 changing_right still 15 PInf = no_threat"
  using ego_merge_case_never_fires [where li = changing_right and vehicle_lane = 1
      and m = still and cfg = example_config and distance = 15 and ttc = PInf]
  by (simp add: changing_right_def LaneInfo_init_def still_def example_config_def)

lemma same_lane_iff:
  "vehicle_lane = ego_lane_id li \<Longrightarrow>
   is_threat (threat_cases cfg vehicle_lane li m d) \<longleftrightarrow>
     (d < medium_risk_distance cfg \<and> (\<not> is_approaching m \<or> relative_speed m < 2))"
  by (simp add: threat_cases_def no_threat_def)

lemma same_lane_score:
  "vehicle_lane = ego_lane_id li \<Longrightarrow> is_threat (threat_cases cfg vehicle_lane li m d) \<Longrightarrow>
   threat_type (threat_cases cfg vehicle_lane li m d) = ''same_lane'' \<and>
   threat_score (threat_cases cfg vehicle_lane li m d) =
     (if d < critical_distance cfg then 90 else if d < high_risk_distance cfg then 70 else 50)"
  by (simp add: threat_cases_def no_threat_def split: if_splits)

lemma single_vehicle:
  "is_vehicle v \<Longrightarrow>
   analyze_collision_risk cfg vh [v] li fh fw =
     (let st = loop_body cfg li fh fw v
                 \<lparr>ls_history = vh, ls_threatening = [], ls_same_lane = 0, ls_oncoming = 0,
                  ls_lane_change = 0, ls_max_threat_score = 0, ls_primary_threat = None\<rparr>;
          level = risk_level_of (ls_max_threat_score st)
      in ((initial_result 1)
            \<lparr>result_lane_info := Some li, risk_level := level,
             max_score := ls_max_threat_score st, primary_threat := ls_primary_threat st,
             threatening_objects := ls_threatening st,
             recommendations := generate_intelligent_recommendations level (ls_threatening st) li,
             same_lane_threats := ls_same_lane st, oncoming_threats := ls_oncoming st,
             lane_change_threats := ls_lane_change st\<rparr>, ls_history st))"
  by (simp add: analyze_collision_risk_def Let_def)

lemma single_same_lane_vehicle_at_8m:
  assumes v: "is_vehicle v"
    and lane: "get_vehicle_lane (get_bbox v) li = ego_lane_id li"
    and d: "estimate_distance_fast cfg v fh = 8"
    and c: "8 < critical_distance cfg"
    and cm: "critical_distance cfg \<le> medium_risk_distance cfg"
    and na: "\<not> is_approaching (fst (analyze_vehicle_movement vh v (get_track_id v)))"
  shows "map ta_threat_type
           (threatening_objects (fst (analyze_collision_risk cfg vh [v] li fh fw))) = [''same_lane'']
    \<and> map ta_threat_score
           (threatening_objects (fst (analyze_collision_risk cfg vh [v] li fh fw))) = [90]
    \<and> max_score (fst (analyze_collision_risk cfg vh [v] li fh fw)) = 90
    \<and> risk_level (fst (analyze_collision_risk cfg vh [v] li fh fw)) = ''Critical''"
proof -
  obtain m vh' where mv: "analyze_vehicle_movement vh v (get_track_id v) = (m, vh')"
    by (cases "analyze_vehicle_movement vh v (get_track_id v)")
  with na have nam: "\<not> is_approaching m" by simp
  have a: "assess_actual_threat cfg (ego_lane_id li) li m 8 PInf =
      \<lparr>is_threat = True, threat_type = ''same_lane'', threat_score = 90\<rparr>"
    using c cm nam by (simp add: assess_actual_threat_def threat_cases_def)
  have ta: "analyze_vehicle_threat cfg vh v li fh fw =
      (\<lparr>ta_object = v, ta_is_threat = True, ta_threat_type = ''same_lane'',
        ta_threat_score = 90, ta_distance = 8, ta_ttc = PInf,
        ta_vehicle_lane = ego_lane_id li, ta_movement = m\<rparr>, vh')"
    by (simp add: analyze_vehicle_threat_def lane d mv ttc_not_approaching [OF nam] a)
  show ?thesis
    by (simp add: single_vehicle [OF v] loop_body_def ta risk_level_of_def Let_def)
qed

text \<open>
  Claim C3: a vehicle whose lane index is ego's lane index is a threat exactly when its
  distance is below the medium threshold and it is not approaching quickly (not
  approaching, or relative speed below 2 pixels per frame); then the type is
  \<open>same_lane\<close> and the base score, before the adjustment by the time to collision, is 90
  below the critical distance, 70 below the high one and 50 otherwise. Consequently a
  frame whose only object is a vehicle in ego's lane at 8 m, below the critical
  threshold, and not approaching has one threat of type \<open>same_lane\<close> with score 90 and
  the risk level \<open>Critical\<close>.
\<close>

theorem same_lane_rule:
  assumes lane: "vehicle_lane = ego_lane_id li"
  shows "(is_threat (assess_actual_threat cfg vehicle_lane li m d ttc) \<longleftrightarrow>
            d < medium_risk_distance cfg \<and> (\<not> is_approaching m \<or> relative_speed m < 2))
       \<and> (is_threat (assess_actual_threat cfg vehicle_lane li m d ttc) \<longrightarrow>
            threat_type (assess_actual_threat cfg vehicle_lane li m d ttc) = ''same_lane'' \<and>
            threat_score (threat_cases cfg vehicle_lane li m d) =
              (if d < critical_distance cfg then 90
               else if d < high_risk_distance cfg then 70 else 50))
       \<and> (is_vehicle v \<and> get_vehicle_lane (get_bbox v) li = ego_lane_id li \<and>
          estimate_distance_fast cfg v fh = 8 \<and> 8 < critical_distance cfg \<and>
          critical_distance cfg \<le> medium_risk_distance cfg \<and>
          \<not> is_approaching (fst (analyze_vehicle_movement vh v (get_track_id v))) \<longrightarrow>
            map ta_threat_type
              (threatening_objects (fst (analyze_collision_risk cfg vh [v] li fh fw)))
              = [''same_lane''] \<and>
            map ta_threat_score
              (threatening_objects (fst (analyze_collision_risk cfg vh [v] li fh fw))) = [90] \<and>
            max_score (fst (analyze_collision_risk cfg vh [v] li fh fw)) = 90 \<and>
            risk_level (fst (analyze_collision_risk cfg vh [v] li fh fw)) = ''Critical'')"
proof (intro conjI)
  show "is_threat (assess_actual_threat cfg vehicle_lane li m d ttc) \<longleftrightarrow>
          d < medium_risk_distance cfg \<and> (\<not> is_approaching m \<or> relative_speed m < 2)"
    using same_lane_iff [OF lane] by (simp add: assess_actual_threat_def)
  show "is_threat (assess_actual_threat cfg vehicle_lane li m d ttc) \<longrightarrow>
          threat_type (assess_actual_threat cfg vehicle_lane li m d ttc) = ''same_lane'' \<and>
          threat_score (threat_cases cfg vehicle_lane li m d) =
            (if d < critical_distance cfg then 90
             else if d < high_risk_distance cfg then 70 else 50)"
    using same_lane_score [OF lane] by (simp add: assess_actual_threat_def)
  show "is_vehicle v \<and> get_vehicle_lane (get_bbox v) li = ego_lane_id li \<and>
          estimate_distance_fast cfg v fh = 8 \<and> 8 < critical_distance cfg \<and>
          critical_distance cfg \<le> medium_risk_distance cfg \<and>
          \<not> is_approaching (fst (analyze_vehicle_movement vh v (get_track_id v))) \<longrightarrow>
            map ta_threat_type
              (threatening_objects (fst (analyze_collision_risk cfg vh [v] li fh fw)))
              = [''same_lane''] \<and>
            map ta_threat_score
              (threatening_objects (fst (analyze_collision_risk cfg vh [v] li fh fw))) = [90] \<and>
            max_score (fst (analyze_collision_risk cfg vh [v] li fh fw)) = 90 \<and>
            risk_level (fst (analyze_collision_risk cfg vh [v] li fh fw)) = ''Critical''"
    using single_same_lane_vehicle_at_8m by blast
qed

lemma car_distance_8:
  "estimate_distance_fast example_config (car 1 (100, 100, 200, 208)) 720 = 8"
  by (simp add: estimate_distance_fast_def example_config_def car_def get_bbox_def
      get_class_name_def)

lemma car_fresh_movement:
  "analyze_vehicle_movement Map.empty (car 1 b) 1 =
     (still, [1 \<mapsto> [(case b of (b0, b1, b2, b3) \<Rightarrow> ((b0 + b2) / 2, (b1 + b3) / 2))]])"
  by (simp add: analyze_vehicle_movement_def still_def max_history_frames_def Let_def
      get_bbox_def car_def)

theorem same_lane_rule_witness:
  "(0::int) = ego_lane_id LaneInfo_init
   \<and> is_threat (assess_actual_threat example_config 0 LaneInfo_init still 8 PInf)
   \<and> threat_type (assess_actual_threat example_config 0 LaneInfo_init still 8 PInf) = ''same_lane''
   \<and> threat_score (threat_cases example_config 0 LaneInfo_init still 8) = 90
   \<and> is_vehicle (car 1 (100, 100, 200, 208))
   \<and> estimate_distance_fast example_config (car 1 (100, 100, 200, 208)) 720 = 8
   \<and> map ta_threat_type (threatening_objects (fst
        (analyze_collision_risk example_config Map.empty [car 1 (100, 100, 200, 208)]
           LaneInfo_init 720 1280))) = [''same_lane'']
   \<and> max_score (fst
        (analyze_collision_risk example_config Map.empty [car 1 (100, 100, 200, 208)]
           LaneInfo_init 720 1280)) = 90
   \<and> risk_level (fst
        (analyze_collision_risk example_config Map.empty [car 1 (100, 100, 200, 208)]
           LaneInfo_init 720 1280)) = ''Critical''"
proof -
  have lane: "(0::int) = ego_lane_id LaneInfo_init"
    by (simp add: LaneInfo_init_def)
  have vl: "get_vehicle_lane (get_bbox (car 1 (100, 100, 200, 208))) LaneInfo_init
      = ego_lane_id LaneInfo_init"
    by (simp add: get_vehicle_lane_def LaneInfo_init_def)
  have tid: "get_track_id (car 1 (100, 100, 200, 208)) = 1"
    by (simp add: get_track_id_def car_def)
  have na: "\<not> is_approaching (fst (analyze_vehicle_movement Map.empty
      (car 1 (100, 100, 200, 208)) (get_track_id (car 1 (100, 100, 200, 208)))))"
    by (simp add: tid car_fresh_movement still_def)
  have cfg: "8 < critical_distance example_config"
    "critical_distance example_config \<le> medium_risk_distance example_config"
    "(8::real) < medium_risk_distance example_config"
    by (simp_all add: example_config_def)
  have st: "\<not> is_approaching still"
    by (simp add: still_def)
  show ?thesis
    using same_lane_rule [OF lane, where cfg = example_config and m = still and d = 8
        and ttc = PInf and v = "car 1 (100, 100, 200, 208)" and fh = 720
        and vh = Map.empty and fw = 1280]
      is_vehicle_car vl car_distance_8 na cfg st
    by (simp add: LaneInfo_init_def)
qed

section \<open>Lane information\<close>

lemma process_lane_lines_ego [simp]: "ego_lane_id (process_lane_lines ls li) = ego_lane_id li"
  by (simp add: process_lane_lines_def split: prod.splits list.splits)

lemma process_lane_lines_lcd [simp]:
  "lane_change_detected (process_lane_lines ls li) = lane_change_detected li"
  by (simp add: process_lane_lines_def split: prod.splits list.splits)

lemma detect_ego_position_nonneg:
  "0 \<le> ego_lane_id li \<Longrightarrow> 0 \<le> ego_lane_id (fst (detect_ego_position li h))"
  by (simp add: detect_ego_position_def Let_def split: option.splits)

lemma detect_lanes_ego_nonneg: "0 \<le> ego_lane_id (fst (detect_lanes h w lines hist))"
  unfolding detect_lanes_def Let_def
  by (rule detect_ego_position_nonneg) (simp add: LaneInfo_init_def split: option.splits)

lemma detect_ego_position_empty:
  "lane_boundaries li = [] \<Longrightarrow> detect_ego_position li h = (li, h)"
  by (simp add: detect_ego_position_def)

lemma detect_ego_position_lane_boundaries [simp]:
  "lane_boundaries (fst (detect_ego_position li h)) = lane_boundaries li"
  by (simp add: detect_ego_position_def Let_def split: option.splits)

lemma detect_lanes_no_boundaries:
  assumes "lane_boundaries (fst (detect_lanes h w lines hist)) = []"
  shows "ego_lane_id (fst (detect_lanes h w lines hist)) = 0
       \<and> \<not> lane_change_detected (fst (detect_lanes h w lines hist))"
proof -
  define li1 where "li1 = (case lines of
                   None \<Rightarrow> LaneInfo_init\<lparr>frame_width := w, frame_height := h\<rparr>
                 | Some ls \<Rightarrow>
                     process_lane_lines
                       (map (\<lambda>(x1, y1, x2, y2). (x1, y1 + h div 2, x2, y2 + h div 2)) ls)
                       (LaneInfo_init\<lparr>frame_width := w, frame_height := h\<rparr>))"
  have dl: "detect_lanes h w lines hist = detect_ego_position li1 hist"
    by (simp add: detect_lanes_def li1_def Let_def)
  have e: "ego_lane_id li1 = 0" and l: "\<not> lane_change_detected li1"
    by (simp_all add: li1_def LaneInfo_init_def split: option.splits)
  from assms have "lane_boundaries li1 = []" by (simp add: dl)
  then have "detect_ego_position li1 hist = (li1, hist)" by (rule detect_ego_position_empty)
  with e l show ?thesis by (simp add: dl)
qed

lemma oncoming_iff:
  assumes "ego_lane_id li \<noteq> - 1"
  shows "is_threat (threat_cases cfg (- 1) li m d) \<longleftrightarrow>
     (lane_change_detected li \<and> lane_change_direction li = ''left'' \<and>
      d < high_risk_distance cfg \<and> is_approaching m)"
  using assms by (auto simp: threat_cases_def no_threat_def)

lemma oncoming_score:
  assumes "ego_lane_id li \<noteq> - 1" "is_threat (threat_cases cfg (- 1) li m d)"
  shows "threat_type (threat_cases cfg (- 1) li m d) = ''oncoming'' \<and>
         threat_score (threat_cases cfg (- 1) li m d) = 95"
  using assms by (simp add: threat_cases_def no_threat_def split: if_splits)

lemma dl_left:
  "detect_lanes 480 640 (Some two_lines) [400, 400, 400, 400] =
     (\<lparr>ego_lane_id = 0,
       lane_boundaries = [(((100, 240), (200, 440)), ((500, 440), (600, 240)))],
       lane_change_detected = True, lane_change_direction = ''left'',
       frame_width = 640, frame_height = 480\<rparr>, [400, 400, 400, 400, 320])"
  by (simp add: detect_lanes_def two_lines_def LaneInfo_init_def process_lane_lines_def
      detect_ego_position_def boundary_x_def line_mid_x_def lane_change_threshold_def Let_def)

lemma dl_none:
  "detect_lanes 480 640 None [] = (LaneInfo_init\<lparr>frame_width := 640, frame_height := 480\<rparr>, [])"
  by (simp add: detect_lanes_def detect_ego_position_def LaneInfo_init_def)

text \<open>
  Claim C4: a vehicle whose lane index is the oncoming sentinel \<open>- 1\<close> is a threat exactly
  when ego's lane change is detected with direction \<open>left\<close>, the distance is below the
  high-risk threshold and the vehicle is approaching; then the type is \<open>oncoming\<close> and
  the base score is 95. When ego is not changing lanes the vehicle is not a threat,
  whatever its distance and speed. The lane information is any output of
  \<open>detect_lanes\<close>, whose ego lane index is never negative.
\<close>

theorem oncoming_rule:
  "(is_threat (assess_actual_threat cfg (- 1) (fst (detect_lanes h w lines hist)) m d ttc) \<longleftrightarrow>
      lane_change_detected (fst (detect_lanes h w lines hist)) \<and>
      lane_change_direction (fst (detect_lanes h w lines hist)) = ''left'' \<and>
      d < high_risk_distance cfg \<and> is_approaching m)
   \<and> (is_threat (assess_actual_threat cfg (- 1) (fst (detect_lanes h w lines hist)) m d ttc) \<longrightarrow>
        threat_type (assess_actual_threat cfg (- 1) (fst (detect_lanes h w lines hist)) m d ttc)
          = ''oncoming'' \<and>
        threat_score (threat_cases cfg (- 1) (fst (detect_lanes h w lines hist)) m d) = 95)
   \<and> (\<not> lane_change_detected (fst (detect_lanes h w lines hist)) \<longrightarrow>
        \<not> is_threat (assess_actual_threat cfg (- 1) (fst (detect_lanes h w lines hist)) m d ttc))"
proof -
  have ne: "ego_lane_id (fst (detect_lanes h w lines hist)) \<noteq> - 1"
    using detect_lanes_ego_nonneg [of h w lines hist] by simp
  show ?thesis
    using oncoming_iff [OF ne, of cfg m d] oncoming_score [OF ne, of cfg m d]
    by (simp add: assess_actual_threat_def)
qed

theorem oncoming_rule_witness:
  "is_threat (assess_actual_threat example_config (- 1)
      (fst (detect_lanes 480 640 (Some two_lines) [400, 400, 400, 400])) approaching 12 (Fin 24))
   \<and> lane_change_detected (fst (detect_lanes 480 640 (Some two_lines) [400, 400, 400, 400]))
   \<and> lane_change_direction (fst (detect_lanes 480 640 (Some two_lines) [400, 400, 400, 400])) = ''left''
   \<and> (12::real) < high_risk_distance example_config
   \<and> is_approaching approaching
   \<and> threat_type (assess_actual_threat example_config (- 1)
      (fst (detect_lanes 480 640 (Some two_lines) [400, 400, 400, 400])) approaching 12 (Fin 24))
       = ''oncoming''
   \<and> threat_score (threat_cases example_config (- 1)
      (fst (detect_lanes 480 640 (Some two_lines) [400, 400, 400, 400])) approaching 12) = 95
   \<and> \<not> lane_change_detected (fst (detect_lanes 480 640 None []))
   \<and> \<not> is_threat (assess_actual_threat example_config (- 1)
      (fst (detect_lanes 480 640 None [])) approaching 12 (Fin 24))"
  using oncoming_rule [of example_config 480 640 "Some two_lines" "[400, 400, 400, 400]" approaching 12 "Fin 24"]
    oncoming_rule [of example_config 480 640 None "[]" approaching 12 "Fin 24"]
  by (simp add: dl_left dl_none example_config_def approaching_def LaneInfo_init_def)

section \<open>The position history\<close>

lemma movement_history:
  "snd (analyze_vehicle_movement vh v tid) =
     vh(tid \<mapsto> (let h1 = (case vh tid of None \<Rightarrow> [] | Some h \<Rightarrow> h) @
                [(case get_bbox v of (b0, b1, b2, b3) \<Rightarrow> ((b0 + b2) / 2, (b1 + b3) / 2))]
              in if length h1 > max_history_frames then tl h1 else h1))"
  by (simp add: analyze_vehicle_movement_def Let_def)

lemma threat_history:
  "snd (analyze_vehicle_threat cfg vh v li fh fw) =
     snd (analyze_vehicle_movement vh v (get_track_id v))"
  by (simp add: analyze_vehicle_threat_def Let_def split: prod.splits)

lemma loop_body_history:
  "ls_history (loop_body cfg li fh fw v st) =
     snd (analyze_vehicle_movement (ls_history st) v (get_track_id v))"
  using threat_history [of cfg "ls_history st" v li fh fw]
  by (cases "analyze_vehicle_threat cfg (ls_history st) v li fh fw")
    (simp add: loop_body_def Let_def)

lemma loop_body_dom:
  "dom (ls_history (loop_body cfg li fh fw v st)) = insert (get_track_id v) (dom (ls_history st))"
  by (simp add: loop_body_history movement_history)

lemma analyze_vehicles_dom:
  "dom (ls_history (analyze_vehicles cfg li fh fw vs st)) =
     dom (ls_history st) \<union> get_track_id ` set vs"
  by (induction vs arbitrary: st) (auto simp: loop_body_dom)

lemma analyze_collision_risk_dom:
  "dom (snd (analyze_collision_risk cfg vh objs li fh fw)) =
     dom vh \<union> get_track_id ` set (filter is_vehicle objs)"
  by (cases "filter is_vehicle objs = []")
    (simp_all add: analyze_collision_risk_def Let_def analyze_vehicles_dom)

lemma loop_body_bounded:
  "history_bounded (ls_history st) \<Longrightarrow> history_bounded (ls_history (loop_body cfg li fh fw v st))"
  unfolding history_bounded_def loop_body_history movement_history
  by (auto simp: Let_def split: option.splits if_splits)

lemma analyze_vehicles_bounded:
  "history_bounded (ls_history st) \<Longrightarrow>
   history_bounded (ls_history (analyze_vehicles cfg li fh fw vs st))"
  by (induction vs arbitrary: st) (auto simp: loop_body_bounded)

lemma analyze_collision_risk_bounded:
  "history_bounded vh \<Longrightarrow> history_bounded (snd (analyze_collision_risk cfg vh objs li fh fw))"
  by (simp add: analyze_collision_risk_def Let_def analyze_vehicles_bounded)

lemma analyze_frames_keeps_keys:
  "k \<in> dom vh \<Longrightarrow> k \<in> dom (analyze_frames cfg vh fs)"
proof (induction fs arbitrary: vh)
  case Nil
  then show ?case by simp
next
  case (Cons f fs)
  obtain objs li fh fw where f: "f = (objs, li, fh, fw)" by (cases f)
  have "k \<in> dom (snd (analyze_collision_risk cfg vh objs li fh fw))"
    using Cons.prems by (simp add: analyze_collision_risk_dom)
  then show ?case using Cons.IH by (simp add: f)
qed

text \<open>
  Claim C2, as amended: the position history is never pruned of stale identities. After
  every call of \<open>analyze_collision_risk\<close> its key set is the key set before the call
  together with the track ids of the vehicles of the input, so that it only grows; what
  is bounded is each identity's own list of positions, which keeps at most
  \<^verbatim>\<open>max_history_frames\<close> entries.
\<close>

theorem history_keys_only_grow:
  "dom (snd (analyze_collision_risk cfg vh objs li fh fw)) =
     dom vh \<union> get_track_id ` set (filter is_vehicle objs)
   \<and> (history_bounded vh \<longrightarrow>
        history_bounded (snd (analyze_collision_risk cfg vh objs li fh fw)))"
  using analyze_collision_risk_dom analyze_collision_risk_bounded by blast

text \<open>
  Claim C2 as stated fails: track 1 is seen in one frame and then absent from six
  frames in a row, more than the tracker's maximum age of five frames, and its entry is
  still in the history.
\<close>

theorem stale_identity_counterexample:
  "1 \<in> dom (analyze_frames example_config Map.empty
       [([car 1 (100, 100, 200, 208)], LaneInfo_init, 720, 1280),
        ([car 2 (100, 100, 200, 208)], LaneInfo_init, 720, 1280),
        ([car 2 (100, 100, 200, 208)], LaneInfo_init, 720, 1280),
        ([car 2 (100, 100, 200, 208)], LaneInfo_init, 720, 1280),
        ([car 2 (100, 100, 200, 208)], LaneInfo_init, 720, 1280),
        ([car 2 (100, 100, 200, 208)], LaneInfo_init, 720, 1280),
        ([car 2 (100, 100, 200, 208)], LaneInfo_init, 720, 1280)])
   \<and> get_track_id (car 2 (100, 100, 200, 208)) \<noteq> 1"
proof -
  have "1 \<in> dom (snd (analyze_collision_risk example_config Map.empty
      [car 1 (100, 100, 200, 208)] LaneInfo_init 720 1280))"
    by (simp add: analyze_collision_risk_dom is_vehicle_car) (simp add: get_track_id_def car_def)
  then have "1 \<in> dom (analyze_frames example_config
      (snd (analyze_collision_risk example_config Map.empty
         [car 1 (100, 100, 200, 208)] LaneInfo_init 720 1280))
       [([car 2 (100, 100, 200, 208)], LaneInfo_init, 720, 1280),
        ([car 2 (100, 100, 200, 208)], LaneInfo_init, 720, 1280),
        ([car 2 (100, 100, 200, 208)], LaneInfo_init, 720, 1280),
        ([car 2 (100, 100, 200, 208)], LaneInfo_init, 720, 1280),
        ([car 2 (100, 100, 200, 208)], LaneInfo_init, 720, 1280),
        ([car 2 (100, 100, 200, 208)], LaneInfo_init, 720, 1280)])"
    by (rule analyze_frames_keeps_keys)
  moreover have "get_track_id (car 2 (100, 100, 200, 208)) \<noteq> 1"
    by (simp add: get_track_id_def car_def)
  ultimately show ?thesis
    by (simp only: analyze_frames.simps simp_thms)
qed


theorem history_keys_only_grow_witness:
  "history_bounded [1 \<mapsto> [(0, 0)]]
   \<and> dom (snd (analyze_collision_risk example_config [1 \<mapsto> [(0, 0)]]
         [car 2 (100, 100, 200, 208)] LaneInfo_init 720 1280)) = {1, 2}
   \<and> history_bounded (snd (analyze_collision_risk example_config [1 \<mapsto> [(0, 0)]]
         [car 2 (100, 100, 200, 208)] LaneInfo_init 720 1280))"
proof -
  have b: "history_bounded [1 \<mapsto> [(0, 0)]]"
    by (simp add: history_bounded_def max_history_frames_def)
  have t: "get_track_id (car 2 (100, 100, 200, 208)) = 2"
    by (simp add: get_track_id_def car_def)
  show ?thesis
    using history_keys_only_grow [of example_config "[1 \<mapsto> [(0, 0)]]"
        "[car 2 (100, 100, 200, 208)]" LaneInfo_init 720 1280] b
    by (auto simp: is_vehicle_car t)
qed

section \<open>Frames without vehicles\<close>

text \<open>
  Claim C9: for an empty list of tracked objects, and likewise when no object is a
  vehicle, \<open>analyze_collision_risk\<close> returns a result with risk level \<open>None\<close>, threat
  score 0, no primary threat, empty lists of threatening objects and recommendations,
  the three counters at 0 and \<open>total_objects\<close> equal to the length of the input.
\<close>

theorem no_vehicle_result:
  assumes "tracked_objects = [] \<or> filter is_vehicle tracked_objects = []"
  shows "risk_level (fst (analyze_collision_risk cfg vh tracked_objects li fh fw)) = ''None''
    \<and> max_score (fst (analyze_collision_risk cfg vh tracked_objects li fh fw)) = 0
    \<and> primary_threat (fst (analyze_collision_risk cfg vh tracked_objects li fh fw)) = None
    \<and> threatening_objects (fst (analyze_collision_risk cfg vh tracked_objects li fh fw)) = []
    \<and> recommendations (fst (analyze_collision_risk cfg vh tracked_objects li fh fw)) = []
    \<and> same_lane_threats (fst (analyze_collision_risk cfg vh tracked_objects li fh fw)) = 0
    \<and> oncoming_threats (fst (analyze_collision_risk cfg vh tracked_objects li fh fw)) = 0
    \<and> lane_change_threats (fst (analyze_collision_risk cfg vh tracked_objects li fh fw)) = 0
    \<and> total_objects (fst (analyze_collision_risk cfg vh tracked_objects li fh fw))
        = length tracked_objects"
proof (cases "tracked_objects = []")
  case True
  then show ?thesis by (simp add: analyze_collision_risk_def initial_result_def)
next
  case False
  with assms have "filter is_vehicle tracked_objects = []" by simp
  with False show ?thesis by (simp add: analyze_collision_risk_def initial_result_def Let_def)
qed

lemma not_vehicle_person: "\<not> is_vehicle (person i b)"
  by (simp add: is_vehicle_def get_class_name_def lower_def lower_char_def person_def)

theorem no_vehicle_result_witness:
  "risk_level (fst (analyze_collision_risk example_config Map.empty [] LaneInfo_init 720 1280)) = ''None''
   \<and> total_objects (fst (analyze_collision_risk example_config Map.empty [] LaneInfo_init 720 1280)) = 0
   \<and> threatening_objects (fst (analyze_collision_risk example_config Map.empty [] LaneInfo_init 720 1280)) = []
   \<and> filter is_vehicle [person 7 (10, 10, 50, 120)] = []
   \<and> risk_level (fst (analyze_collision_risk example_config Map.empty
        [person 7 (10, 10, 50, 120)] LaneInfo_init 720 1280)) = ''None''
   \<and> max_score (fst (analyze_collision_risk example_config Map.empty
        [person 7 (10, 10, 50, 120)] LaneInfo_init 720 1280)) = 0
   \<and> total_objects (fst (analyze_collision_risk example_config Map.empty
        [person 7 (10, 10, 50, 120)] LaneInfo_init 720 1280)) = 1"
proof -
  have p: "filter is_vehicle [person 7 (10, 10, 50, 120)] = []"
    by (simp add: not_vehicle_person)
  show ?thesis
    using no_vehicle_result [of "[]" example_config Map.empty LaneInfo_init 720 1280]
      no_vehicle_result [of "[person 7 (10, 10, 50, 120)]" example_config Map.empty
        LaneInfo_init 720 1280] p
    by simp
qed

section \<open>Aggregation over the frame\<close>

lemma loop_body_threatening:
  "ls_threatening (loop_body cfg li fh fw v st) =
     ls_threatening st @
       (if ta_is_threat (fst (analyze_vehicle_threat cfg (ls_history st) v li fh fw))
        then [fst (analyze_vehicle_threat cfg (ls_history st) v li fh fw)] else [])"
  by (cases "analyze_vehicle_threat cfg (ls_history st) v li fh fw")
    (simp add: loop_body_def Let_def)

lemma loop_body_max:
  "ls_max_threat_score (loop_body cfg li fh fw v st) =
     (if ta_is_threat (fst (analyze_vehicle_threat cfg (ls_history st) v li fh fw))
      then max (ls_max_threat_score st)
             (ta_threat_score (fst (analyze_vehicle_threat cfg (ls_history st) v li fh fw)))
      else ls_max_threat_score st)"
  by (cases "analyze_vehicle_threat cfg (ls_history st) v li fh fw")
    (simp add: loop_body_def Let_def)

lemma max_of_scores_snoc:
  "max_of_scores (ts @ [t]) = max (max_of_scores ts) (ta_threat_score t)"
proof -
  have "insert 0 (ta_threat_score ` set (ts @ [t])) =
      insert (ta_threat_score t) (insert 0 (ta_threat_score ` set ts))"
    by auto
  then show ?thesis
    by (simp add: max_of_scores_def max.commute)
qed

lemma loop_body_max_inv:
  "ls_max_threat_score st = max_of_scores (ls_threatening st) \<Longrightarrow>
   ls_max_threat_score (loop_body cfg li fh fw v st) =
     max_of_scores (ls_threatening (loop_body cfg li fh fw v st))"
  by (simp add: loop_body_max loop_body_threatening max_of_scores_snoc)

lemma analyze_vehicles_max_inv:
  "ls_max_threat_score st = max_of_scores (ls_threatening st) \<Longrightarrow>
   ls_max_threat_score (analyze_vehicles cfg li fh fw vs st) =
     max_of_scores (ls_threatening (analyze_vehicles cfg li fh fw vs st))"
  by (induction vs arbitrary: st) (simp_all add: loop_body_max_inv)

lemma result_max_score:
  "max_score (fst (analyze_collision_risk cfg vh objs li fh fw)) =
     max_of_scores (threatening_objects (fst (analyze_collision_risk cfg vh objs li fh fw)))"
proof (cases "filter is_vehicle objs = []")
  case True
  then show ?thesis
    by (cases "objs = []")
      (simp_all add: analyze_collision_risk_def initial_result_def max_of_scores_def Let_def)
next
  case False
  then have ne: "objs \<noteq> []" by auto
  show ?thesis
    using False ne
    by (simp add: analyze_collision_risk_def Let_def)
      (rule analyze_vehicles_max_inv, simp add: max_of_scores_def)
qed

lemma result_risk_level:
  "risk_level (fst (analyze_collision_risk cfg vh objs li fh fw)) =
     risk_level_of (max_score (fst (analyze_collision_risk cfg vh objs li fh fw)))"
  by (cases "objs = []"; cases "filter is_vehicle objs = []")
    (simp_all add: analyze_collision_risk_def initial_result_def risk_level_of_def Let_def)

lemma risk_rank_mono: "b \<le> a \<Longrightarrow> risk_rank (risk_level_of b) \<le> risk_rank (risk_level_of a)"
  by (simp add: risk_level_of_def risk_rank_def)

lemma loop_body_history_threat:
  "ls_history (loop_body cfg li fh fw v st) =
     snd (analyze_vehicle_threat cfg (ls_history st) v li fh fw)"
  by (cases "analyze_vehicle_threat cfg (ls_history st) v li fh fw")
    (simp add: loop_body_def Let_def)

lemma analyze_vehicles_threatening:
  "ls_threatening (analyze_vehicles cfg li fh fw vs st) =
     ls_threatening st @
       filter ta_is_threat (vehicle_analyses cfg li fh fw (ls_history st) vs)"
  by (induction vs arbitrary: st)
    (simp_all add: loop_body_threatening loop_body_history_threat)

lemma result_threatening:
  "threatening_objects (fst (analyze_collision_risk cfg vh objs li fh fw)) =
     filter ta_is_threat (vehicle_analyses cfg li fh fw vh (filter is_vehicle objs))"
proof (cases "filter is_vehicle objs = []")
  case True
  then show ?thesis
    by (cases "objs = []") (simp_all add: analyze_collision_risk_def initial_result_def Let_def)
next
  case False
  then have "objs \<noteq> []" by auto
  with False show ?thesis
    by (simp add: analyze_collision_risk_def Let_def analyze_vehicles_threatening)
qed

lemma threat_cases_shape:
  "threat_cases cfg vl li m d = no_threat \<or> is_threat (threat_cases cfg vl li m d)"
  by (simp add: threat_cases_def Let_def)

lemma no_threat_score:
  "\<not> is_threat (threat_cases cfg vl li m d) \<Longrightarrow> threat_score (threat_cases cfg vl li m d) = 0"
  using threat_cases_shape [of cfg vl li m d] by (auto simp: no_threat_def)

lemma analysis_no_threat_score:
  assumes "\<not> ta_is_threat (fst (analyze_vehicle_threat cfg vh v li fh fw))"
  shows "ta_threat_score (fst (analyze_vehicle_threat cfg vh v li fh fw)) = 0"
proof -
  obtain m vh' where mv: "analyze_vehicle_movement vh v (get_track_id v) = (m, vh')"
    by (cases "analyze_vehicle_movement vh v (get_track_id v)")
  let ?a = "threat_cases cfg (get_vehicle_lane (get_bbox v) li) li m
      (estimate_distance_fast cfg v fh)"
  from assms have nt: "\<not> is_threat ?a"
    by (simp add: analyze_vehicle_threat_def assess_actual_threat_def mv Let_def)
  then have "threat_score ?a = 0" by (rule no_threat_score)
  with nt show ?thesis
    by (simp add: analyze_vehicle_threat_def assess_actual_threat_def adjust_for_ttc_def mv
        Let_def)
qed

lemma vehicle_analyses_no_threat_score:
  "t \<in> set (vehicle_analyses cfg li fh fw vh vs) \<Longrightarrow> \<not> ta_is_threat t \<Longrightarrow>
   ta_threat_score t = 0"
  by (induction vs arbitrary: vh) (auto simp: analysis_no_threat_score)

lemma max_of_scores_filter:
  assumes "\<And>t. t \<in> set ts \<Longrightarrow> \<not> ta_is_threat t \<Longrightarrow> ta_threat_score t = 0"
  shows "max_of_scores (filter ta_is_threat ts) = max_of_scores ts"
proof -
  have "insert 0 (ta_threat_score ` set (filter ta_is_threat ts)) =
      insert 0 (ta_threat_score ` set ts)"
    using assms by (auto simp: image_iff)
  then show ?thesis by (simp only: max_of_scores_def)
qed

lemma result_max_over_vehicles:
  "max_score (fst (analyze_collision_risk cfg vh objs li fh fw)) =
     max_of_scores (vehicle_analyses cfg li fh fw vh (filter is_vehicle objs))"
  using max_of_scores_filter [of "vehicle_analyses cfg li fh fw vh (filter is_vehicle objs)"]
    vehicle_analyses_no_threat_score [of _ cfg li fh fw vh "filter is_vehicle objs"]
  by (simp add: result_max_score result_threatening)

text \<open>
  Claim C5: the risk level of a frame is the step function of the greatest threat score
  of its vehicles: at least 80 gives \<open>Critical\<close>, at least 60 \<open>High\<close>, at least 40
  \<open>Medium\<close>, at least 20 \<open>Low\<close>, otherwise \<open>None\<close>. The threatening objects of the result
  are the analyses of all the vehicles of the frame that are threats, in order; the
  field \<open>threat_score\<close> of the result is the greatest score over the analyses of all the
  vehicles (a vehicle that is no threat has score 0, and so has a frame without
  vehicles), and the risk level is the step function at that score. The step function
  is monotone: a greater score never has a lower level in the order
  None < Low < Medium < High < Critical.
\<close>

theorem risk_level_step_function:
  "threatening_objects (fst (analyze_collision_risk cfg vh objs li fh fw)) =
     filter ta_is_threat (vehicle_analyses cfg li fh fw vh (filter is_vehicle objs))
   \<and> max_score (fst (analyze_collision_risk cfg vh objs li fh fw)) =
       Max (insert 0 (ta_threat_score `
         set (vehicle_analyses cfg li fh fw vh (filter is_vehicle objs))))
   \<and> risk_level (fst (analyze_collision_risk cfg vh objs li fh fw)) =
       risk_level_of (max_score (fst (analyze_collision_risk cfg vh objs li fh fw)))
   \<and> risk_level_of s =
       (if s \<ge> 80 then ''Critical'' else if s \<ge> 60 then ''High''
        else if s \<ge> 40 then ''Medium'' else if s \<ge> 20 then ''Low'' else ''None'')
   \<and> (b < a \<longrightarrow> risk_rank (risk_level_of b) \<le> risk_rank (risk_level_of a))
   \<and> risk_level (fst (analyze_collision_risk cfg vh objs li fh fw)) =
     (let s = Max (insert 0 (ta_threat_score `
                set (threatening_objects (fst (analyze_collision_risk cfg vh objs li fh fw)))))
      in if s \<ge> 80 then ''Critical'' else if s \<ge> 60 then ''High''
         else if s \<ge> 40 then ''Medium'' else if s \<ge> 20 then ''Low'' else ''None'')
   \<and> max_score (fst (analyze_collision_risk cfg vh objs li fh fw)) =
       Max (insert 0 (ta_threat_score `
                set (threatening_objects (fst (analyze_collision_risk cfg vh objs li fh fw)))))"
proof (intro conjI)
  show "threatening_objects (fst (analyze_collision_risk cfg vh objs li fh fw)) =
     filter ta_is_threat (vehicle_analyses cfg li fh fw vh (filter is_vehicle objs))"
    by (rule result_threatening)
  show "max_score (fst (analyze_collision_risk cfg vh objs li fh fw)) =
       Max (insert 0 (ta_threat_score `
         set (vehicle_analyses cfg li fh fw vh (filter is_vehicle objs))))"
    using result_max_over_vehicles [of cfg vh objs li fh fw]
    by (simp only: max_of_scores_def)
  show "risk_level (fst (analyze_collision_risk cfg vh objs li fh fw)) =
       risk_level_of (max_score (fst (analyze_collision_risk cfg vh objs li fh fw)))"
    by (rule result_risk_level)
  show "risk_level_of s =
       (if s \<ge> 80 then ''Critical'' else if s \<ge> 60 then ''High''
        else if s \<ge> 40 then ''Medium'' else if s \<ge> 20 then ''Low'' else ''None'')"
    by (simp only: risk_level_of_def)
  show "b < a \<longrightarrow> risk_rank (risk_level_of b) \<le> risk_rank (risk_level_of a)"
    using risk_rank_mono [of b a] by simp
  show "risk_level (fst (analyze_collision_risk cfg vh objs li fh fw)) =
     (let s = Max (insert 0 (ta_threat_score `
                set (threatening_objects (fst (analyze_collision_risk cfg vh objs li fh fw)))))
      in if s \<ge> 80 then ''Critical'' else if s \<ge> 60 then ''High''
         else if s \<ge> 40 then ''Medium'' else if s \<ge> 20 then ''Low'' else ''None'')"
    using result_risk_level [of cfg vh objs li fh fw] result_max_score [of cfg vh objs li fh fw]
    by (simp add: max_of_scores_def risk_level_of_def Let_def)
  show "max_score (fst (analyze_collision_risk cfg vh objs li fh fw)) =
       Max (insert 0 (ta_threat_score `
                set (threatening_objects (fst (analyze_collision_risk cfg vh objs li fh fw)))))"
    using result_max_score [of cfg vh objs li fh fw] by (simp only: max_of_scores_def)
qed

lemma fresh_car_movement:
  "vh i = None \<Longrightarrow>
   analyze_vehicle_movement vh (car i (b0, b1, b2, b3)) i =
     (still, vh(i \<mapsto> [((b0 + b2) / 2, (b1 + b3) / 2)]))"
  by (simp add: analyze_vehicle_movement_def still_def max_history_frames_def Let_def
      get_bbox_def car_def)

lemma fresh_car_threat:
  assumes "vh i = None"
  shows "analyze_vehicle_threat example_config vh (car i (b0, b1, b2, b3)) LaneInfo_init 720 fw =
     (let d = estimate_distance_fast example_config (car i (b0, b1, b2, b3)) 720;
          a = threat_cases example_config 0 LaneInfo_init still d
      in (car_analysis i (b0, b1, b2, b3) (is_threat a) (threat_type a) (threat_score a) d,
          vh(i \<mapsto> [((b0 + b2) / 2, (b1 + b3) / 2)])))"
proof -
  have t: "get_track_id (car i (b0, b1, b2, b3)) = i"
    by (simp add: get_track_id_def car_def)
  have l: "get_vehicle_lane (get_bbox (car i (b0, b1, b2, b3))) LaneInfo_init = 0"
    by (simp add: get_vehicle_lane_def LaneInfo_init_def)
  have c: "calculate_intelligent_ttc d still = PInf" for d
    by (simp add: calculate_intelligent_ttc_def still_def)
  show ?thesis
    using assms
    by (simp add: analyze_vehicle_threat_def t l c fresh_car_movement
        assess_actual_threat_def car_analysis_def Let_def)
qed

lemma car_distances:
  "estimate_distance_fast example_config (car i (100, 100, 200, 154)) 720 = 16"
  "estimate_distance_fast example_config (car i (100, 100, 200, 208)) 720 = 8"
  "estimate_distance_fast example_config (car i (100, 100, 200, 100)) 720 = 50"
  by (simp_all add: estimate_distance_fast_def example_config_def car_def get_bbox_def
      get_class_name_def)

lemma still_cases:
  "threat_cases example_config 0 LaneInfo_init still 16 =
     \<lparr>is_threat = True, threat_type = ''same_lane'', threat_score = 50\<rparr>"
  "threat_cases example_config 0 LaneInfo_init still 8 =
     \<lparr>is_threat = True, threat_type = ''same_lane'', threat_score = 90\<rparr>"
  "threat_cases example_config 0 LaneInfo_init still 50 = no_threat"
  by (simp_all add: threat_cases_def example_config_def LaneInfo_init_def still_def)

lemma three_cars_analyses:
  "vehicle_analyses example_config LaneInfo_init 720 1280 Map.empty three_cars =
     [car_analysis 1 (100, 100, 200, 154) True ''same_lane'' 50 16,
      car_analysis 2 (100, 100, 200, 208) True ''same_lane'' 90 8,
      car_analysis 3 (100, 100, 200, 100) False ''none'' 0 50]"
  by (simp add: three_cars_def fresh_car_threat car_distances still_cases no_threat_def)


lemma three_cars_vehicles: "filter is_vehicle three_cars = three_cars"
  by (simp add: three_cars_def is_vehicle_car)

theorem risk_level_step_function_witness:
  "map ta_threat_score
     (vehicle_analyses example_config LaneInfo_init 720 1280 Map.empty
        (filter is_vehicle three_cars)) = [50, 90, 0]
   \<and> map ta_threat_score (threatening_objects (fst
        (analyze_collision_risk example_config Map.empty three_cars LaneInfo_init 720 1280)))
       = [50, 90]
   \<and> max_score (fst
        (analyze_collision_risk example_config Map.empty three_cars LaneInfo_init 720 1280)) = 90
   \<and> risk_level (fst
        (analyze_collision_risk example_config Map.empty three_cars LaneInfo_init 720 1280))
       = ''Critical''
   \<and> risk_level_of 25 = ''Low''
   \<and> (50::int) < 90
   \<and> risk_rank (risk_level_of 50) \<le> risk_rank (risk_level_of 90)
   \<and> risk_rank (risk_level_of 50) = 2 \<and> risk_rank (risk_level_of 90) = 4"
proof -
  note t = risk_level_step_function [of example_config Map.empty three_cars LaneInfo_init
      720 1280 25 50 90]
  have va: "vehicle_analyses example_config LaneInfo_init 720 1280 Map.empty
        (filter is_vehicle three_cars) =
     [car_analysis 1 (100, 100, 200, 154) True ''same_lane'' 50 16,
      car_analysis 2 (100, 100, 200, 208) True ''same_lane'' 90 8,
      car_analysis 3 (100, 100, 200, 100) False ''none'' 0 50]"
    by (simp only: three_cars_vehicles three_cars_analyses)
  have scores: "map ta_threat_score
     (vehicle_analyses example_config LaneInfo_init 720 1280 Map.empty
        (filter is_vehicle three_cars)) = [50, 90, 0]"
    by (simp add: va car_analysis_def)
  from t have th: "threatening_objects (fst
        (analyze_collision_risk example_config Map.empty three_cars LaneInfo_init 720 1280)) =
      filter ta_is_threat (vehicle_analyses example_config LaneInfo_init 720 1280 Map.empty
        (filter is_vehicle three_cars))"
    by (rule conjunct1)
  have thr: "map ta_threat_score (threatening_objects (fst
        (analyze_collision_risk example_config Map.empty three_cars LaneInfo_init 720 1280)))
       = [50, 90]"
    by (simp add: th va car_analysis_def)
  from t have "max_score (fst
        (analyze_collision_risk example_config Map.empty three_cars LaneInfo_init 720 1280)) =
       Max (insert 0 (ta_threat_score `
         set (vehicle_analyses example_config LaneInfo_init 720 1280 Map.empty
           (filter is_vehicle three_cars))))"
    by (elim conjE)
  then have mx: "max_score (fst
        (analyze_collision_risk example_config Map.empty three_cars LaneInfo_init 720 1280)) = 90"
    by (simp add: va car_analysis_def)
  from t have "risk_level (fst
        (analyze_collision_risk example_config Map.empty three_cars LaneInfo_init 720 1280)) =
       risk_level_of (max_score (fst
        (analyze_collision_risk example_config Map.empty three_cars LaneInfo_init 720 1280)))"
    by (elim conjE)
  then have rl: "risk_level (fst
        (analyze_collision_risk example_config Map.empty three_cars LaneInfo_init 720 1280))
       = ''Critical''"
    by (simp add: mx risk_level_of_def)
  from t have "risk_level_of 25 =
       (if (25::int) \<ge> 80 then ''Critical'' else if (25::int) \<ge> 60 then ''High''
        else if (25::int) \<ge> 40 then ''Medium'' else if (25::int) \<ge> 20 then ''Low''
        else ''None'')"
    by (elim conjE)
  then have low: "risk_level_of 25 = ''Low''" by simp
  have ranks: "risk_rank (risk_level_of 50) = 2" "risk_rank (risk_level_of 90) = 4"
    by (simp_all add: risk_rank_def risk_level_of_def)
  show ?thesis
    using scores thr mx rl low ranks by simp
qed


lemma analysis_threat_type:
  "ta_threat_type (fst (analyze_vehicle_threat cfg vh v li fh fw)) =
     threat_type (threat_cases cfg (get_vehicle_lane (get_bbox v) li) li
       (fst (analyze_vehicle_movement vh v (get_track_id v)))
       (estimate_distance_fast cfg v fh))
   \<and> ta_is_threat (fst (analyze_vehicle_threat cfg vh v li fh fw)) =
     is_threat (threat_cases cfg (get_vehicle_lane (get_bbox v) li) li
       (fst (analyze_vehicle_movement vh v (get_track_id v)))
       (estimate_distance_fast cfg v fh))
   \<and> ta_vehicle_lane (fst (analyze_vehicle_threat cfg vh v li fh fw)) =
       get_vehicle_lane (get_bbox v) li"
  by (cases "analyze_vehicle_movement vh v (get_track_id v)")
    (simp add: analyze_vehicle_threat_def assess_actual_threat_def Let_def)

lemma same_lane_types:
  "vehicle_lane = ego_lane_id li \<Longrightarrow>
   threat_type (threat_cases cfg vehicle_lane li m d) =
     (if is_threat (threat_cases cfg vehicle_lane li m d) then ''same_lane'' else ''none'')"
  by (simp add: threat_cases_def no_threat_def)

lemma analyze_vehicles_all:
  assumes "\<forall>t\<in>set (ls_threatening st). P t"
    and "\<And>vh v. ta_is_threat (fst (analyze_vehicle_threat cfg vh v li fh fw)) \<Longrightarrow>
           P (fst (analyze_vehicle_threat cfg vh v li fh fw))"
  shows "\<forall>t\<in>set (ls_threatening (analyze_vehicles cfg li fh fw vs st)). P t"
  using assms(1)
proof (induction vs arbitrary: st)
  case Nil
  then show ?case by simp
next
  case (Cons v vs)
  have "\<forall>t\<in>set (ls_threatening (loop_body cfg li fh fw v st)). P t"
    using Cons.prems assms(2) [of "ls_history st" v] by (auto simp: loop_body_threatening)
  then show ?case using Cons.IH by simp
qed

lemma threatening_objects_all:
  assumes "\<And>vh v. ta_is_threat (fst (analyze_vehicle_threat cfg vh v li fh fw)) \<Longrightarrow>
           P (fst (analyze_vehicle_threat cfg vh v li fh fw))"
  shows "\<forall>t\<in>set (threatening_objects (fst (analyze_collision_risk cfg vh objs li fh fw))). P t"
proof (cases "objs = [] \<or> filter is_vehicle objs = []")
  case True
  then show ?thesis
    by (auto simp: analyze_collision_risk_def initial_result_def Let_def)
next
  case False
  have "\<forall>t\<in>set (ls_threatening (analyze_vehicles cfg li fh fw (filter is_vehicle objs)
      \<lparr>ls_history = vh, ls_threatening = [], ls_same_lane = 0, ls_oncoming = 0,
       ls_lane_change = 0, ls_max_threat_score = 0, ls_primary_threat = None\<rparr>)). P t"
    by (rule analyze_vehicles_all) (simp, rule assms)
  with False show ?thesis
    by (simp add: analyze_collision_risk_def Let_def)
qed

text \<open>
  Claim C10: when the lane information of the frame has no lane boundaries, the ego lane
  index is 0 and \<open>get_vehicle_lane\<close> is 0 for every box, so the lane of every assessed
  vehicle is ego's lane; no vehicle gets the threat type \<open>oncoming\<close> or \<open>lane_change\<close>,
  and every threatening object of the frame has the type \<open>same_lane\<close>.
\<close>

theorem no_lane_geometry:
  assumes li: "li = fst (detect_lanes h w lines hist)"
    and nb: "lane_boundaries li = []"
  shows "ego_lane_id li = 0
    \<and> get_vehicle_lane b li = 0
    \<and> ta_vehicle_lane (fst (analyze_vehicle_threat cfg vh v li fh fw)) = ego_lane_id li
    \<and> ta_threat_type (fst (analyze_vehicle_threat cfg vh v li fh fw)) \<noteq> ''oncoming''
    \<and> ta_threat_type (fst (analyze_vehicle_threat cfg vh v li fh fw)) \<noteq> ''lane_change''
    \<and> (\<forall>t\<in>set (threatening_objects (fst (analyze_collision_risk cfg vh objs li fh fw))).
          ta_threat_type t = ''same_lane'')"
proof -
  have ego: "ego_lane_id li = 0"
    using detect_lanes_no_boundaries [of h w lines hist] li nb by simp
  have lane: "get_vehicle_lane b li = 0" for b
    using nb by (simp add: get_vehicle_lane_def)
  have ty: "ta_threat_type (fst (analyze_vehicle_threat cfg vh v li fh fw)) =
      (if ta_is_threat (fst (analyze_vehicle_threat cfg vh v li fh fw))
       then ''same_lane'' else ''none'')" for vh v
    using same_lane_types [of "get_vehicle_lane (get_bbox v) li" li cfg]
    by (simp add: analysis_threat_type lane ego)
  have "\<forall>t\<in>set (threatening_objects (fst (analyze_collision_risk cfg vh objs li fh fw))).
          ta_threat_type t = ''same_lane''"
    by (rule threatening_objects_all) (simp add: ty)
  then show ?thesis
    using ego lane ty [of vh v] by (simp add: analysis_threat_type)
qed


lemma detect_lanes_None: "fst (detect_lanes 480 640 None []) = empty_lanes"
  by (simp add: detect_lanes_def detect_ego_position_def LaneInfo_init_def empty_lanes_def)

lemma empty_lanes_frame:
  "fst (analyze_vehicle_threat example_config Map.empty (car 1 (100, 100, 200, 148))
          empty_lanes 480 640) =
     \<lparr>ta_object = car 1 (100, 100, 200, 148), ta_is_threat = True,
      ta_threat_type = ''same_lane'', ta_threat_score = 70, ta_distance = 12, ta_ttc = PInf,
      ta_vehicle_lane = 0, ta_movement = still\<rparr>"
proof -
  have d: "estimate_distance_fast example_config (car 1 (100, 100, 200, 148)) 480 = 12"
    by (simp add: estimate_distance_fast_def example_config_def car_def get_bbox_def
        get_class_name_def)
  have t: "get_track_id (car 1 (100, 100, 200, 148)) = 1"
    by (simp add: get_track_id_def car_def)
  have l: "get_vehicle_lane (get_bbox (car 1 (100, 100, 200, 148))) empty_lanes = 0"
    by (simp add: get_vehicle_lane_def empty_lanes_def LaneInfo_init_def)
  have a: "assess_actual_threat example_config 0 empty_lanes still 12 PInf =
      \<lparr>is_threat = True, threat_type = ''same_lane'', threat_score = 70\<rparr>"
    by (simp add: assess_actual_threat_def threat_cases_def example_config_def
        empty_lanes_def LaneInfo_init_def still_def)
  have c: "calculate_intelligent_ttc 12 still = PInf"
    by (simp add: calculate_intelligent_ttc_def still_def)
  show ?thesis
    by (simp add: analyze_vehicle_threat_def d t l car_fresh_movement c a)
qed

theorem no_lane_geometry_witness:
  "empty_lanes = fst (detect_lanes 480 640 None [])
   \<and> lane_boundaries empty_lanes = []
   \<and> ego_lane_id empty_lanes = 0
   \<and> get_vehicle_lane (100, 100, 200, 148) empty_lanes = 0
   \<and> ta_is_threat (fst (analyze_vehicle_threat example_config Map.empty
        (car 1 (100, 100, 200, 148)) empty_lanes 480 640))
   \<and> ta_threat_type (fst (analyze_vehicle_threat example_config Map.empty
        (car 1 (100, 100, 200, 148)) empty_lanes 480 640)) = ''same_lane''
   \<and> ta_threat_type (fst (analyze_vehicle_threat example_config Map.empty
        (car 1 (100, 100, 200, 148)) empty_lanes 480 640)) \<noteq> ''oncoming''
   \<and> ta_threat_type (fst (analyze_vehicle_threat example_config Map.empty
        (car 1 (100, 100, 200, 148)) empty_lanes 480 640)) \<noteq> ''lane_change''
   \<and> ta_vehicle_lane (fst (analyze_vehicle_threat example_config Map.empty
        (car 1 (100, 100, 200, 148)) empty_lanes 480 640)) = ego_lane_id empty_lanes"
proof -
  have li: "empty_lanes = fst (detect_lanes 480 640 None [])"
    by (simp add: detect_lanes_None)
  have nb: "lane_boundaries empty_lanes = []"
    by (simp add: empty_lanes_def LaneInfo_init_def)
  show ?thesis
    using no_lane_geometry [OF li nb, where b = "(100, 100, 200, 148)" and cfg = example_config
        and vh = Map.empty and v = "car 1 (100, 100, 200, 148)" and fh = 480 and fw = 640
        and objs = "[car 1 (100, 100, 200, 148)]"] li nb
    by (simp add: empty_lanes_frame)
qed

section \<open>Time to collision\<close>

lemma intelligent_ttc_wellformed: "ttc_wellformed (calculate_intelligent_ttc d m)"
  by (simp add: calculate_intelligent_ttc_def Let_def max_def)

lemma intelligent_ttc_inf:
  "\<not> is_approaching m \<or> relative_speed m < 0.1 \<Longrightarrow> calculate_intelligent_ttc d m = PInf"
  by (auto simp: calculate_intelligent_ttc_def Let_def)

lemma track_ttc_wellformed:
  "ttc_wellformed (time_to_collision t) \<Longrightarrow>
   ttc_wellformed (time_to_collision (calculate_time_to_collision t))"
  by (cases "time_to_collision t")
    (auto simp: calculate_time_to_collision_def Let_def)

lemma track_ttc_inf:
  "2 \<le> length (position_history t) \<Longrightarrow>
   \<not> snd (velocity t) > 0 \<or> linalg_norm (real_world_velocity t) \<le> 0.1 \<Longrightarrow>
   time_to_collision (calculate_time_to_collision t) = PInf"
  by (auto simp: calculate_time_to_collision_def Let_def)

lemma track_ttc_cap:
  "time_to_collision (calculate_time_to_collision t) = Fin x \<Longrightarrow> x \<le> 60"
  by (cases "time_to_collision t")
    (auto simp: calculate_time_to_collision_def Let_def split: if_splits)

lemma norm_0_3: "linalg_norm (0, 3) = 3"
proof -
  have "sqrt 9 = sqrt (3\<^sup>2)" by simp
  also have "\<dots> = 3" by (simp only: real_sqrt_abs)
  finally show ?thesis by (simp add: linalg_norm_def)
qed

lemma closing_ttc: "time_to_collision (calculate_time_to_collision closing) = Fin 10"
  by (simp add: calculate_time_to_collision_def closing_def norm_0_3)


text \<open>
  Claim C8: every time to collision that the collision analyzer or the per-track
  estimator produces is plus infinity or a finite value above 0 (values are reals here:
  there is no negative and no undefined result). The analyzer's value is infinite when
  the object is not approaching or its speed is below 0.1; the estimator's value, once
  the object has two positions, is infinite when the vertical velocity does not point
  down the frame or the closing speed is not above 0.1, and a finite value never
  exceeds 60 seconds. The estimator keeps a well-formed value well formed: it starts at
  infinity.
\<close>

theorem ttc_well_formed:
  "ttc_wellformed (calculate_intelligent_ttc d m)
   \<and> (\<not> is_approaching m \<or> relative_speed m < 0.1 \<longrightarrow>
        calculate_intelligent_ttc d m = PInf)
   \<and> (ttc_wellformed (time_to_collision t) \<longrightarrow>
        ttc_wellformed (time_to_collision (calculate_time_to_collision t)))
   \<and> (2 \<le> length (position_history t) \<and>
        (\<not> snd (velocity t) > 0 \<or> linalg_norm (real_world_velocity t) \<le> 0.1) \<longrightarrow>
        time_to_collision (calculate_time_to_collision t) = PInf)
   \<and> (\<forall>x. time_to_collision (calculate_time_to_collision t) = Fin x \<longrightarrow> x \<le> 60)"
  using intelligent_ttc_wellformed [of d m] intelligent_ttc_inf [of m d]
    track_ttc_wellformed [of t] track_ttc_inf [of t] track_ttc_cap [of t]
  by blast

lemma approaching_ttc: "calculate_intelligent_ttc 12 approaching = Fin 24"
  by (simp add: calculate_intelligent_ttc_def approaching_def)

theorem ttc_well_formed_witness:
  "calculate_intelligent_ttc 12 approaching = Fin 24
   \<and> ttc_wellformed (calculate_intelligent_ttc 12 approaching)
   \<and> \<not> is_approaching still
   \<and> calculate_intelligent_ttc 12 still = PInf
   \<and> ttc_wellformed (time_to_collision closing)
   \<and> time_to_collision (calculate_time_to_collision closing) = Fin 10
   \<and> ttc_wellformed (time_to_collision (calculate_time_to_collision closing))
   \<and> (10::real) \<le> 60
   \<and> 2 \<le> length (position_history receding)
   \<and> \<not> snd (velocity receding) > 0
   \<and> ttc_wellformed (time_to_collision receding)
   \<and> time_to_collision (calculate_time_to_collision receding) = PInf"
proof -
  have r: "2 \<le> length (position_history receding)" "\<not> snd (velocity receding) > 0"
    "ttc_wellformed (time_to_collision receding)"
    by (simp_all add: receding_def)
  have c: "ttc_wellformed (time_to_collision closing)"
    by (simp add: closing_def)
  have s: "\<not> is_approaching still"
    by (simp add: still_def)
  show ?thesis
    using ttc_well_formed [of 12 approaching closing] ttc_well_formed [of 12 still receding]
      r c s closing_ttc approaching_ttc
    by simp
qed

section \<open>The tracker\<close>

lemma length_apply_matches [simp]: "length (apply_matches ex dets ms ts) = length ts"
  by (induction ms arbitrary: ts) auto

lemma apply_matches_ids [simp]:
  "map trk_id (apply_matches ex dets ms ts) = map trk_id ts"
proof (induction ms arbitrary: ts)
  case Nil
  then show ?case by simp
next
  case (Cons m ms)
  obtain d t where m: "m = (d, t)" by (cases m)
  have "map trk_id (ts[t := track_update ex (ts ! t) (det_bbox (dets ! d))]) = map trk_id ts"
    by (simp add: map_update track_update_def list_update_same_conv)
      (metis list_update_id map_update)
  then show ?case using Cons.IH by (simp add: m)
qed

lemma apply_matches_tsu:
  "j < length ts \<Longrightarrow>
   time_since_update (apply_matches ex dets ms ts ! j) =
     (if j \<in> set (map snd ms) then 0 else time_since_update (ts ! j))"
proof (induction ms arbitrary: ts)
  case Nil
  then show ?case by simp
next
  case (Cons m ms)
  obtain d t where m: "m = (d, t)" by (cases m)
  let ?ts = "ts[t := track_update ex (ts ! t) (det_bbox (dets ! d))]"
  have len: "j < length ?ts" using Cons.prems by simp
  have step: "time_since_update (?ts ! j) = (if j = t then 0 else time_since_update (ts ! j))"
    using Cons.prems by (simp add: nth_list_update track_update_def)
  show ?case
    using Cons.IH [OF len] step by (auto simp: m)
qed

lemma spawn_shape:
  "\<exists>news. fst (spawn ex dets is ts nid) = ts @ news
     \<and> (\<forall>t\<in>set news. time_since_update t = 0 \<and> hits t = 1
            \<and> nid \<le> trk_id t \<and> trk_id t < snd (spawn ex dets is ts nid))
     \<and> distinct (map trk_id news) \<and> nid \<le> snd (spawn ex dets is ts nid)"
proof (induction "is" arbitrary: ts nid)
  case Nil
  then show ?case by simp
next
  case (Cons i "is")
  show ?case
  proof (cases "det_confidence (dets ! i) > 0.5")
    case False
    then show ?thesis using Cons.IH [of ts nid] by simp
  next
    case True
    let ?n = "FastKalmanFilter_init ex (dets ! i) nid"
    obtain news where n: "fst (spawn ex dets is (ts @ [?n]) (nid + 1)) = (ts @ [?n]) @ news"
      and p: "\<forall>t\<in>set news. time_since_update t = 0 \<and> hits t = 1
            \<and> nid + 1 \<le> trk_id t \<and> trk_id t < snd (spawn ex dets is (ts @ [?n]) (nid + 1))"
      and d: "distinct (map trk_id news)"
      and le: "nid + 1 \<le> snd (spawn ex dets is (ts @ [?n]) (nid + 1))"
      using Cons.IH [of "ts @ [?n]" "nid + 1"] by blast
    have "fst (spawn ex dets (i # is) ts nid) = ts @ (?n # news)"
      using True n by simp
    moreover have "\<forall>t\<in>set (?n # news). time_since_update t = 0 \<and> hits t = 1
            \<and> nid \<le> trk_id t \<and> trk_id t < snd (spawn ex dets (i # is) ts nid)"
      using True p le by (auto simp: FastKalmanFilter_init_def)
    moreover have "distinct (map trk_id (?n # news))"
      using d p by (auto simp: FastKalmanFilter_init_def)
    moreover have "nid \<le> snd (spawn ex dets (i # is) ts nid)"
      using True le by simp
    ultimately show ?thesis by blast
  qed
qed

lemma emit_filter:
  "emit ex mh ts =
     map (snapshot ex) (filter (\<lambda>t. hits t \<ge> mh \<or> time_since_update t = 0) ts)"
  by (induction ts) auto

lemma snapshot_id [simp]: "out_track_id (snapshot ex t) = trk_id t"
  by (simp add: snapshot_def split: prod.splits)

lemma snapshot_hits [simp]: "out_hits (snapshot ex t) = hits t"
  by (simp add: snapshot_def split: prod.splits)

text \<open>What one successful update does, in terms of its stages.\<close>

lemma update_Inr:
  assumes "update ex st dets = Inr (out, st')"
  obtains matches ud ut news where
    "associate ex st dets = Inr (matches, ud, ut)"
    "trackers st' = filter (\<lambda>t. time_since_update t \<le> max_age st)
        (apply_matches ex dets matches (map (predict ex) (trackers st)) @ news)"
    "\<forall>t\<in>set news. time_since_update t = 0 \<and> hits t = 1
        \<and> next_id st \<le> trk_id t \<and> trk_id t < next_id st'"
    "distinct (map trk_id news)"
    "next_id st \<le> next_id st'"
    "max_age st' = max_age st" "min_hits st' = min_hits st"
    "out = emit ex (min_hits st) (trackers st')"
proof -
  from assms obtain matches ud ut where a: "associate ex st dets = Inr (matches, ud, ut)"
    by (auto simp: update_def split: sum.splits)
  let ?ts2 = "apply_matches ex dets matches (map (predict ex) (trackers st))"
  obtain news where n: "fst (spawn ex dets ud ?ts2 (next_id st)) = ?ts2 @ news"
    and p: "\<forall>t\<in>set news. time_since_update t = 0 \<and> hits t = 1
            \<and> next_id st \<le> trk_id t \<and> trk_id t < snd (spawn ex dets ud ?ts2 (next_id st))"
    and d: "distinct (map trk_id news)"
    and le: "next_id st \<le> snd (spawn ex dets ud ?ts2 (next_id st))"
    using spawn_shape [of ex dets ud ?ts2 "next_id st"] by blast
  from assms a have st': "st' = st\<lparr>trackers := filter (\<lambda>t. time_since_update t \<le> max_age st)
        (fst (spawn ex dets ud ?ts2 (next_id st))),
      next_id := snd (spawn ex dets ud ?ts2 (next_id st)), frame_count := frame_count st + 1\<rparr>"
    and out: "out = emit ex (min_hits st) (filter (\<lambda>t. time_since_update t \<le> max_age st)
        (fst (spawn ex dets ud ?ts2 (next_id st))))"
    by (auto simp: update_def Let_def split: prod.splits)
  show ?thesis
    by (rule that [OF a, of news]) (use n p d le st' out in simp_all)
qed

lemma predict_ids [simp]: "map trk_id (map (predict ex) ts) = map trk_id ts"
  by (simp add: predict_def)

lemma fast_associate_total:
  assumes "solver_in_range ex"
  shows "\<exists>r. fast_associate ex thr dets trks = Inr r"
proof (cases "trks = [] \<or> dets = []")
  case True
  then show ?thesis by (auto simp: fast_associate_def Let_def)
next
  case False
  let ?cost = "map (map (\<lambda>x. 1 - x)) (map (\<lambda>d. map (\<lambda>t. calculate_iou_fast d t) trks) dets)"
  have l: "length ?cost = length dets" by simp
  have h: "length (hd ?cost) = length trks"
    using False by (cases dets) simp_all
  have "list_all (\<lambda>(d, t). d < length ?cost \<and> t < length (hd ?cost))
      (linear_sum_assignment ex ?cost)"
    using assms unfolding solver_in_range_def by blast
  then have "list_all (\<lambda>(d, t). d < length dets \<and> t < length trks)
      (linear_sum_assignment ex ?cost)"
    by (simp only: l h)
  then show ?thesis
    using False by (simp add: fast_associate_def Let_def)
qed

lemma associate_total:
  assumes "solver_in_range ex"
  shows "\<exists>r. associate ex st dets = Inr r"
  using fast_associate_total [OF assms] by (simp add: associate_def Let_def)

lemma update_total:
  assumes "solver_in_range ex"
  shows "\<exists>out st'. update ex st dets = Inr (out, st')"
proof -
  obtain r where "associate ex st dets = Inr r"
    using associate_total [OF assms] by blast
  then show ?thesis
    by (cases r) (simp add: update_def Let_def split: prod.splits)
qed

lemma distinct_map_filter_out:
  assumes "distinct (map f xs)" "j < length xs" "\<not> P (xs ! j)"
  shows "f (xs ! j) \<notin> f ` set (filter P xs)"
proof
  assume "f (xs ! j) \<in> f ` set (filter P xs)"
  then obtain x where x: "x \<in> set xs" "P x" "f x = f (xs ! j)" by auto
  have "inj_on f (set xs)" using assms(1) by (simp add: distinct_map)
  moreover have "xs ! j \<in> set xs" using assms(2) by simp
  ultimately have "x = xs ! j" using x by (auto dest: inj_onD)
  with x assms(3) show False by simp
qed

lemma distinct_old_new:
  fixes f :: "'a \<Rightarrow> int"
  assumes "distinct (map f xs)" "distinct (map f ys)"
    and "\<forall>x\<in>set xs. f x < n" "\<forall>y\<in>set ys. n \<le> f y"
  shows "distinct (map f (xs @ ys))"
  using assms by fastforce

lemma stage_ids:
  assumes inv: "tracker_inv st"
    and nw: "\<forall>t\<in>set news. time_since_update t = 0 \<and> hits t = 1
        \<and> next_id st \<le> trk_id t \<and> trk_id t < nid"
    and dn: "distinct (map trk_id news)"
  shows "distinct (map trk_id
      (apply_matches ex dets matches (map (predict ex) (trackers st)) @ news))"
proof -
  let ?ts2 = "apply_matches ex dets matches (map (predict ex) (trackers st))"
  have ids2: "map trk_id ?ts2 = map trk_id (trackers st)"
    by (simp only: apply_matches_ids predict_ids)
  have d2: "distinct (map trk_id ?ts2)"
    using inv by (simp only: ids2 tracker_inv_def)
  have "set (map trk_id ?ts2) = set (map trk_id (trackers st))"
    by (simp only: ids2)
  then have old: "\<forall>t\<in>set ?ts2. trk_id t < next_id st"
    using inv unfolding tracker_inv_def by (metis image_eqI list.set_map imageE)
  show ?thesis
    by (rule distinct_old_new [OF d2 dn old]) (use nw in simp)
qed

lemma update_ids:
  assumes inv: "tracker_inv st" and upd: "update ex st dets = Inr (out, st')"
  shows "tracker_inv st'"
    and "trk_id ` set (trackers st') \<subseteq> trk_id ` set (trackers st) \<union> {i. next_id st \<le> i}"
    and "out_track_id ` set out \<subseteq> trk_id ` set (trackers st')"
    and "next_id st \<le> next_id st'"
proof -
  from upd obtain matches ud ut news where
    tr: "trackers st' = filter (\<lambda>t. time_since_update t \<le> max_age st)
        (apply_matches ex dets matches (map (predict ex) (trackers st)) @ news)"
    and nw: "\<forall>t\<in>set news. time_since_update t = 0 \<and> hits t = 1
        \<and> next_id st \<le> trk_id t \<and> trk_id t < next_id st'"
    and dn: "distinct (map trk_id news)"
    and le: "next_id st \<le> next_id st'"
    and out: "out = emit ex (min_hits st) (trackers st')"
    by (rule update_Inr)
  let ?ts2 = "apply_matches ex dets matches (map (predict ex) (trackers st))"
  have ids2: "map trk_id ?ts2 = map trk_id (trackers st)"
    by (simp only: apply_matches_ids predict_ids)
  have old: "\<forall>i\<in>set (map trk_id (trackers st)). i < next_id st"
    using inv by (auto simp: tracker_inv_def)
  have d: "distinct (map trk_id (?ts2 @ news))"
    using stage_ids [OF inv nw dn] .
  have sub: "set (trackers st') \<subseteq> set (?ts2 @ news)"
    by (auto simp: tr)
  have below: "\<forall>t\<in>set (?ts2 @ news). trk_id t < next_id st'"
  proof
    fix t assume "t \<in> set (?ts2 @ news)"
    then consider "t \<in> set ?ts2" | "t \<in> set news" by auto
    then show "trk_id t < next_id st'"
    proof cases
      case 1
      then have "trk_id t \<in> set (map trk_id ?ts2)" by (simp del: apply_matches_ids)
      then have "trk_id t < next_id st" using old by (simp only: ids2)
      then show ?thesis using le by simp
    next
      case 2
      then show ?thesis using nw by simp
    qed
  qed
  have "distinct (map trk_id (trackers st'))"
    unfolding tr by (rule distinct_map_filter [OF d])
  moreover have "\<forall>t\<in>set (trackers st'). trk_id t < next_id st'"
    using below sub by blast
  ultimately show "tracker_inv st'"
    by (simp only: tracker_inv_def simp_thms)
  show "trk_id ` set (trackers st') \<subseteq> trk_id ` set (trackers st) \<union> {i. next_id st \<le> i}"
  proof
    fix i assume "i \<in> trk_id ` set (trackers st')"
    then obtain t where t: "t \<in> set (?ts2 @ news)" "trk_id t = i" using sub by auto
    then consider "t \<in> set ?ts2" | "t \<in> set news" by auto
    then show "i \<in> trk_id ` set (trackers st) \<union> {i. next_id st \<le> i}"
    proof cases
      case 1
      then have "trk_id t \<in> set (map trk_id ?ts2)" by (simp del: apply_matches_ids)
      then have "trk_id t \<in> set (map trk_id (trackers st))" by (simp only: ids2)
      then show ?thesis using t by auto
    next
      case 2
      then show ?thesis using nw t by auto
    qed
  qed
  show "out_track_id ` set out \<subseteq> trk_id ` set (trackers st')"
    by (auto simp: out emit_filter)
  show "next_id st \<le> next_id st'" by (rule le)
qed

lemma update_max_age:
  assumes "update ex st dets = Inr (out, st')"
  shows "\<forall>t\<in>set (trackers st'). time_since_update t \<le> max_age st'"
proof -
  from assms obtain matches ud ut news where
    "trackers st' = filter (\<lambda>t. time_since_update t \<le> max_age st)
        (apply_matches ex dets matches (map (predict ex) (trackers st)) @ news)"
    and "max_age st' = max_age st"
    by (rule update_Inr)
  then show ?thesis by auto
qed

lemma unmatched_stale_removed:
  assumes inv: "tracker_inv st" and upd: "update ex st dets = Inr (out, st')"
    and asc: "associate ex st dets = Inr (matches, ud, ut)"
    and j: "j < length (trackers st)" and um: "j \<notin> set (map snd matches)"
    and stale: "max_age st < Suc (time_since_update (trackers st ! j))"
  shows "trk_id (trackers st ! j) \<notin> trk_id ` set (trackers st')"
proof -
  from upd obtain matches' ud' ut' news where
    asc': "associate ex st dets = Inr (matches', ud', ut')"
    and tr: "trackers st' = filter (\<lambda>t. time_since_update t \<le> max_age st)
        (apply_matches ex dets matches' (map (predict ex) (trackers st)) @ news)"
    and nw: "\<forall>t\<in>set news. time_since_update t = 0 \<and> hits t = 1
        \<and> next_id st \<le> trk_id t \<and> trk_id t < next_id st'"
    and dn: "distinct (map trk_id news)"
    by (rule update_Inr)
  from asc asc' have m: "matches' = matches" by simp
  let ?ts2 = "apply_matches ex dets matches (map (predict ex) (trackers st))"
  have ids2: "map trk_id ?ts2 = map trk_id (trackers st)"
    by (simp only: apply_matches_ids predict_ids)
  have old: "\<forall>i\<in>set (map trk_id (trackers st)). i < next_id st"
    using inv by (auto simp: tracker_inv_def)
  have d: "distinct (map trk_id (?ts2 @ news))"
    using stage_ids [OF inv nw dn] .
  have j2: "j < length (?ts2 @ news)" using j by simp
  have nth: "(?ts2 @ news) ! j = ?ts2 ! j" using j by (simp add: nth_append)
  have "time_since_update (?ts2 ! j) = time_since_update (map (predict ex) (trackers st) ! j)"
    using apply_matches_tsu [of j "map (predict ex) (trackers st)" ex dets matches] j um by simp
  also have "\<dots> = Suc (time_since_update (trackers st ! j))"
    using j by (simp add: predict_def)
  finally have "\<not> time_since_update ((?ts2 @ news) ! j) \<le> max_age st"
    using stale by (simp add: nth)
  then have "trk_id ((?ts2 @ news) ! j) \<notin>
      trk_id ` set (filter (\<lambda>t. time_since_update t \<le> max_age st) (?ts2 @ news))"
    by (rule distinct_map_filter_out [where f = trk_id, OF d j2])
  then have "trk_id (?ts2 ! j) \<notin> trk_id ` set (trackers st')"
    by (simp only: tr m nth simp_thms not_False_eq_True)
  moreover have "trk_id (?ts2 ! j) = trk_id (trackers st ! j)"
    using j ids2 by (metis length_apply_matches length_map nth_map)
  ultimately show ?thesis by simp
qed

lemma absent_stays_absent:
  assumes "tracker_inv st" "run ex st frames = Inr (outs, st')"
    and "i < next_id st" "i \<notin> trk_id ` set (trackers st)"
  shows "i \<notin> trk_id ` set (trackers st') \<and> (\<forall>out\<in>set outs. i \<notin> out_track_id ` set out)"
  using assms
proof (induction frames arbitrary: st outs)
  case Nil
  then show ?case by simp
next
  case (Cons dets frames)
  from Cons.prems(2) obtain out st1 outs1 where
    u: "update ex st dets = Inr (out, st1)" and r: "run ex st1 frames = Inr (outs1, st')"
    and o: "outs = out # outs1"
    by (auto split: sum.splits prod.splits)
  note ids = update_ids [OF Cons.prems(1) u]
  have a1: "i \<notin> trk_id ` set (trackers st1)"
    using ids(2) Cons.prems(3,4) by auto
  have a2: "i \<notin> out_track_id ` set out"
    using ids(3) a1 by auto
  have a3: "i < next_id st1"
    using ids(4) Cons.prems(3) by simp
  from Cons.IH [OF ids(1) r a3 a1] a2 show ?case
    by (simp add: o)
qed

lemma init_tracker_inv: "tracker_inv KalmanTracker_init"
  by (simp add: tracker_inv_def KalmanTracker_init_def)

lemma run_inv:
  assumes "tracker_inv st" "run ex st frames = Inr (outs, st')"
  shows "tracker_inv st'"
  using assms
proof (induction frames arbitrary: st outs)
  case Nil
  then show ?case by simp
next
  case (Cons dets frames)
  from Cons.prems(2) obtain out st1 outs1 where
    u: "update ex st dets = Inr (out, st1)" and r: "run ex st1 frames = Inr (outs1, st')"
    by (auto split: sum.splits prod.splits)
  from Cons.IH [OF update_ids(1) [OF Cons.prems(1) u] r] show ?case .
qed

lemma run_total:
  assumes "solver_in_range ex"
  shows "\<exists>outs st'. run ex st frames = Inr (outs, st')"
proof (induction frames arbitrary: st)
  case Nil
  then show ?case by simp
next
  case (Cons dets frames)
  obtain out st1 where u: "update ex st dets = Inr (out, st1)"
    using update_total [OF assms] by blast
  obtain outs st2 where "run ex st1 frames = Inr (outs, st2)"
    using Cons.IH by blast
  with u show ?case by simp
qed

lemma survivor_counter:
  assumes inv: "tracker_inv st" and upd: "update ex st dets = Inr (out, st')"
    and asc: "associate ex st dets = Inr (matches, ud, ut)"
    and j: "j < length (trackers st)" and t': "t' \<in> set (trackers st')"
    and same: "trk_id t' = trk_id (trackers st ! j)"
  shows "time_since_update t' =
     (if j \<in> set (map snd matches) then 0 else Suc (time_since_update (trackers st ! j)))"
proof -
  from upd obtain matches' ud' ut' news where
    asc': "associate ex st dets = Inr (matches', ud', ut')"
    and tr: "trackers st' = filter (\<lambda>t. time_since_update t \<le> max_age st)
        (apply_matches ex dets matches' (map (predict ex) (trackers st)) @ news)"
    and nw: "\<forall>t\<in>set news. time_since_update t = 0 \<and> hits t = 1
        \<and> next_id st \<le> trk_id t \<and> trk_id t < next_id st'"
    and dn: "distinct (map trk_id news)"
    by (rule update_Inr)
  from asc asc' have m: "matches' = matches" by simp
  let ?ts2 = "apply_matches ex dets matches (map (predict ex) (trackers st))"
  have ids2: "map trk_id ?ts2 = map trk_id (trackers st)"
    by (simp only: apply_matches_ids predict_ids)
  have d: "distinct (map trk_id (?ts2 @ news))"
    using stage_ids [OF inv nw dn] .
  have len: "j < length ?ts2" using j by simp
  have idj: "trk_id (?ts2 ! j) = trk_id (trackers st ! j)"
    using j ids2 by (metis length_apply_matches length_map nth_map)
  have in2: "?ts2 ! j \<in> set (?ts2 @ news)" using len by simp
  have t'in: "t' \<in> set (?ts2 @ news)" using t' by (auto simp: tr m)
  have inj: "inj_on trk_id (set (?ts2 @ news))" using d by (simp only: distinct_map)
  have "trk_id t' = trk_id (?ts2 ! j)" using same idj by simp
  then have eq: "t' = ?ts2 ! j"
    by (rule inj_onD [OF inj _ t'in in2])
  have "time_since_update (?ts2 ! j) =
      (if j \<in> set (map snd matches) then 0
       else time_since_update (map (predict ex) (trackers st) ! j))"
    using apply_matches_tsu [of j "map (predict ex) (trackers st)" ex dets matches] j by simp
  moreover have "time_since_update (map (predict ex) (trackers st) ! j)
      = Suc (time_since_update (trackers st ! j))"
    using j by (simp add: predict_def)
  ultimately show ?thesis by (simp add: eq)
qed

lemma emitted_iff:
  assumes inv: "tracker_inv st'"
    and out: "out = map (snapshot ex)
       (filter (\<lambda>t. mh \<le> hits t \<or> time_since_update t = 0) (trackers st'))"
    and t: "t \<in> set (trackers st')"
  shows "trk_id t \<in> out_track_id ` set out \<longleftrightarrow> (mh \<le> hits t \<or> time_since_update t = 0)"
proof
  assume "trk_id t \<in> out_track_id ` set out"
  then obtain t2 where t2: "t2 \<in> set (trackers st')"
    "mh \<le> hits t2 \<or> time_since_update t2 = 0" "trk_id t2 = trk_id t"
    by (auto simp: out)
  have inj: "inj_on trk_id (set (trackers st'))"
    using inv by (simp add: tracker_inv_def distinct_map)
  have "t2 = t" by (rule inj_onD [OF inj t2(3) t2(1) t])
  with t2 show "mh \<le> hits t \<or> time_since_update t = 0" by simp
next
  assume "mh \<le> hits t \<or> time_since_update t = 0"
  then have "snapshot ex t \<in> set out" using t by (simp add: out)
  then have "out_track_id (snapshot ex t) \<in> out_track_id ` set out" by (rule imageI)
  then show "trk_id t \<in> out_track_id ` set out" by simp
qed

text \<open>
  Claim C7: every update returns, and its output is exactly the snapshots of the
  surviving tracks with \<open>hits \<ge> min_hits\<close> or \<open>time_since_update = 0\<close>, in the order of
  the track list. A surviving track is in the output if and only if it satisfies that
  condition: a track below \<open>min_hits\<close> is emitted only on a frame where it was created or
  matched. The solver is assumed to return indices of its matrix, and the tracker state
  to have distinct identities below the next one, which every reachable state has.
\<close>

theorem emitted_tracks:
  assumes "solver_in_range ex" and "tracker_inv st"
  shows "\<exists>out st'. update ex st dets = Inr (out, st')
    \<and> out = map (snapshot ex)
        (filter (\<lambda>t. min_hits st' \<le> hits t \<or> time_since_update t = 0) (trackers st'))
    \<and> (\<forall>t\<in>set (trackers st').
          trk_id t \<in> out_track_id ` set out \<longleftrightarrow>
            (min_hits st' \<le> hits t \<or> time_since_update t = 0))"
proof -
  obtain out st' where u: "update ex st dets = Inr (out, st')"
    using update_total [OF assms(1)] by blast
  from u obtain matches ud ut news where
    mh: "min_hits st' = min_hits st" and o: "out = emit ex (min_hits st) (trackers st')"
    by (rule update_Inr)
  have out: "out = map (snapshot ex)
      (filter (\<lambda>t. min_hits st' \<le> hits t \<or> time_since_update t = 0) (trackers st'))"
    by (simp add: o mh emit_filter)
  have inv': "tracker_inv st'"
    using update_ids(1) [OF assms(2) u] .
  have "\<forall>t\<in>set (trackers st').
          trk_id t \<in> out_track_id ` set out \<longleftrightarrow>
            (min_hits st' \<le> hits t \<or> time_since_update t = 0)"
    using emitted_iff [OF inv' out] by simp
  with u out show ?thesis by blast
qed

text \<open>
  Claim C6: after every update no track of the track set has a \<open>time_since_update\<close>
  above \<open>max_age\<close>. A track without a match in the frame whose counter thereby exceeds
  \<open>max_age\<close> is removed from the track set in that update and is not in its output; the
  counter of a surviving track is 0 if it was matched in the frame and one more than
  before otherwise, so that it counts the consecutive frames without a match. The
  removal is permanent: an identity below the next identity that is not in the track
  set is in no later track set and in no later output, whatever the later frames are.
\<close>

theorem track_eviction:
  assumes "solver_in_range ex" and "tracker_inv st"
  shows "\<exists>out st' matches ud ut.
      update ex st dets = Inr (out, st') \<and> associate ex st dets = Inr (matches, ud, ut)
    \<and> (\<forall>t\<in>set (trackers st'). time_since_update t \<le> max_age st')
    \<and> (\<forall>j<length (trackers st).
          j \<notin> set (map snd matches) \<and> max_age st < Suc (time_since_update (trackers st ! j)) \<longrightarrow>
            trk_id (trackers st ! j) \<notin> trk_id ` set (trackers st') \<and>
            trk_id (trackers st ! j) \<notin> out_track_id ` set out)
    \<and> (\<forall>j<length (trackers st). \<forall>t'\<in>set (trackers st').
          trk_id t' = trk_id (trackers st ! j) \<longrightarrow>
            time_since_update t' =
              (if j \<in> set (map snd matches) then 0
               else Suc (time_since_update (trackers st ! j))))
    \<and> (\<forall>frames. \<exists>outs st''. run ex st' frames = Inr (outs, st'') \<and>
          (\<forall>i. i < next_id st' \<and> i \<notin> trk_id ` set (trackers st') \<longrightarrow>
             i \<notin> trk_id ` set (trackers st'') \<and>
             (\<forall>later\<in>set outs. i \<notin> out_track_id ` set later)))"
proof -
  obtain out st' where u: "update ex st dets = Inr (out, st')"
    using update_total [OF assms(1)] by blast
  from u obtain matches ud ut news where a: "associate ex st dets = Inr (matches, ud, ut)"
    by (rule update_Inr)
  note ids = update_ids [OF assms(2) u]
  have A: "\<forall>t\<in>set (trackers st'). time_since_update t \<le> max_age st'"
    using update_max_age [OF u] .
  have B: "\<forall>j<length (trackers st).
          j \<notin> set (map snd matches) \<and> max_age st < Suc (time_since_update (trackers st ! j)) \<longrightarrow>
            trk_id (trackers st ! j) \<notin> trk_id ` set (trackers st') \<and>
            trk_id (trackers st ! j) \<notin> out_track_id ` set out"
    using unmatched_stale_removed [OF assms(2) u a] ids(3) by blast
  have C: "\<forall>j<length (trackers st). \<forall>t'\<in>set (trackers st').
          trk_id t' = trk_id (trackers st ! j) \<longrightarrow>
            time_since_update t' =
              (if j \<in> set (map snd matches) then 0
               else Suc (time_since_update (trackers st ! j)))"
    using survivor_counter [OF assms(2) u a] by blast
  have D: "\<forall>frames. \<exists>outs st''. run ex st' frames = Inr (outs, st'') \<and>
          (\<forall>i. i < next_id st' \<and> i \<notin> trk_id ` set (trackers st') \<longrightarrow>
             i \<notin> trk_id ` set (trackers st'') \<and>
             (\<forall>later\<in>set outs. i \<notin> out_track_id ` set later))"
  proof
    fix frames
    obtain outs st'' where r: "run ex st' frames = Inr (outs, st'')"
      using run_total [OF assms(1)] by blast
    have "\<forall>i. i < next_id st' \<and> i \<notin> trk_id ` set (trackers st') \<longrightarrow>
             i \<notin> trk_id ` set (trackers st'') \<and>
             (\<forall>later\<in>set outs. i \<notin> out_track_id ` set later)"
      using absent_stays_absent [OF ids(1) r] by blast
    with r show "\<exists>outs st''. run ex st' frames = Inr (outs, st'') \<and>
          (\<forall>i. i < next_id st' \<and> i \<notin> trk_id ` set (trackers st') \<longrightarrow>
             i \<notin> trk_id ` set (trackers st'') \<and>
             (\<forall>later\<in>set outs. i \<notin> out_track_id ` set later))"
      by blast
  qed
  from u a A B C D show ?thesis by blast
qed

lemma simple_solver_in_range: "solver_in_range simple_externals"
proof -
  have "list_all (\<lambda>(d, t). d < length cost \<and> t < length (hd cost))
      (case cost of [] \<Rightarrow> [] | row # _ \<Rightarrow> zip [0..<length cost] [0..<length row])"
    for cost :: "real list list"
    by (cases cost) (auto simp: list_all_iff set_zip simp del: upt_Suc)
  then show ?thesis
    by (simp add: solver_in_range_def simple_externals_def)
qed

lemma aged_inv: "tracker_inv aged_tracker"
  by (simp add: tracker_inv_def aged_tracker_def KalmanTracker_init_def)

lemma first_frame:
  "update simple_externals KalmanTracker_init [car_detection] =
     Inr ([snapshot simple_externals (fresh_track 1)],
          KalmanTracker_init\<lparr>trackers := [fresh_track 1], next_id := 2, frame_count := 1\<rparr>)"
  by (simp add: update_def associate_def KalmanTracker_init_def car_detection_def
      FastKalmanFilter_init_def simple_externals_def fresh_track_def Let_def)

lemma second_frame:
  "update simple_externals
     (KalmanTracker_init\<lparr>trackers := [fresh_track 1], next_id := 2, frame_count := 1\<rparr>) [] =
     Inr ([], KalmanTracker_init\<lparr>trackers := [(fresh_track 1)\<lparr>age := 1, time_since_update := 1\<rparr>],
                next_id := 2, frame_count := 2\<rparr>)"
  by (simp add: update_def associate_def KalmanTracker_init_def predict_def
      simple_externals_def fresh_track_def Let_def)

lemma aged_frame:
  "update simple_externals aged_tracker [] =
     Inr ([], aged_tracker\<lparr>trackers := [], frame_count := 1\<rparr>)"
  by (simp add: update_def associate_def aged_tracker_def KalmanTracker_init_def predict_def
      simple_externals_def Let_def)

lemma aged_associate: "associate simple_externals aged_tracker [] = Inr ([], [], [0])"
  by (simp add: associate_def aged_tracker_def KalmanTracker_init_def Let_def)

lemma after_aged_frame:
  "update simple_externals (aged_tracker\<lparr>trackers := [], frame_count := 1\<rparr>) [car_detection] =
     Inr ([snapshot simple_externals (fresh_track 2)],
          aged_tracker\<lparr>trackers := [fresh_track 2], next_id := 3, frame_count := 2\<rparr>)"
  by (simp add: update_def associate_def aged_tracker_def KalmanTracker_init_def
      car_detection_def FastKalmanFilter_init_def simple_externals_def fresh_track_def Let_def)

theorem emitted_tracks_witness:
  "solver_in_range simple_externals
   \<and> tracker_inv (KalmanTracker_init :: (real \<times> real \<times> real \<times> real) kalman_tracker)
   \<and> update simple_externals KalmanTracker_init [car_detection] =
       Inr ([snapshot simple_externals (fresh_track 1)],
            KalmanTracker_init\<lparr>trackers := [fresh_track 1], next_id := 2, frame_count := 1\<rparr>)
   \<and> hits (fresh_track 1) < min_hits
         (KalmanTracker_init\<lparr>trackers := [fresh_track 1], next_id := 2, frame_count := 1\<rparr>
            :: (real \<times> real \<times> real \<times> real) kalman_tracker)
   \<and> time_since_update (fresh_track 1) = 0
   \<and> tracker_inv
         (KalmanTracker_init\<lparr>trackers := [fresh_track 1], next_id := 2, frame_count := 1\<rparr>)
   \<and> update simple_externals
         (KalmanTracker_init\<lparr>trackers := [fresh_track 1], next_id := 2, frame_count := 1\<rparr>) [] =
       Inr ([], KalmanTracker_init
                  \<lparr>trackers := [(fresh_track 1)\<lparr>age := 1, time_since_update := 1\<rparr>],
                   next_id := 2, frame_count := 2\<rparr>)"
proof -
  let ?st1 = "KalmanTracker_init\<lparr>trackers := [fresh_track 1], next_id := 2, frame_count := 1\<rparr>"
  obtain out st' where u: "update simple_externals KalmanTracker_init [car_detection]
      = Inr (out, st')"
    and o: "out = map (snapshot simple_externals)
        (filter (\<lambda>t. min_hits st' \<le> hits t \<or> time_since_update t = 0) (trackers st'))"
    using emitted_tracks [OF simple_solver_in_range init_tracker_inv, of "[car_detection]"] by blast
  from u first_frame have st': "st' = ?st1"
    by simp
  have "out = [snapshot simple_externals (fresh_track 1)]"
    by (simp add: o st' fresh_track_def)
  with u st' have first: "update simple_externals KalmanTracker_init [car_detection] =
       Inr ([snapshot simple_externals (fresh_track 1)], ?st1)"
    by simp
  have inv1: "tracker_inv ?st1"
    by (simp add: tracker_inv_def fresh_track_def)
  obtain out2 st2 where u2: "update simple_externals ?st1 [] = Inr (out2, st2)"
    and o2: "out2 = map (snapshot simple_externals)
        (filter (\<lambda>t. min_hits st2 \<le> hits t \<or> time_since_update t = 0) (trackers st2))"
    using emitted_tracks [OF simple_solver_in_range inv1, of "[]"] by blast
  from u2 second_frame have st2: "st2 = KalmanTracker_init
      \<lparr>trackers := [(fresh_track 1)\<lparr>age := 1, time_since_update := 1\<rparr>],
       next_id := 2, frame_count := 2\<rparr>"
    by simp
  have "out2 = []"
    by (simp add: o2 st2 fresh_track_def KalmanTracker_init_def)
  with u2 st2 have second: "update simple_externals ?st1 [] =
       Inr ([], KalmanTracker_init
                  \<lparr>trackers := [(fresh_track 1)\<lparr>age := 1, time_since_update := 1\<rparr>],
                   next_id := 2, frame_count := 2\<rparr>)"
    by simp
  have "hits (fresh_track 1) < min_hits ?st1" "time_since_update (fresh_track 1) = 0"
    by (simp_all add: fresh_track_def KalmanTracker_init_def)
  with first second inv1 simple_solver_in_range init_tracker_inv show ?thesis
    by simp
qed

theorem track_eviction_witness:
  "solver_in_range simple_externals
   \<and> tracker_inv aged_tracker
   \<and> associate simple_externals aged_tracker [] = Inr ([], [], [0])
   \<and> 0 < length (trackers aged_tracker)
   \<and> max_age aged_tracker < Suc (time_since_update (trackers aged_tracker ! 0))
   \<and> trk_id (trackers aged_tracker ! 0) = 1
   \<and> update simple_externals aged_tracker [] =
       Inr ([], aged_tracker\<lparr>trackers := [], frame_count := 1\<rparr>)
   \<and> run simple_externals (aged_tracker\<lparr>trackers := [], frame_count := 1\<rparr>) [[car_detection]] =
       Inr ([[snapshot simple_externals (fresh_track 2)]],
            aged_tracker\<lparr>trackers := [fresh_track 2], next_id := 3, frame_count := 2\<rparr>)
   \<and> trk_id (fresh_track 2) = 2"
proof -
  obtain out st' matches ud ut where
    u: "update simple_externals aged_tracker [] = Inr (out, st')"
    and a: "associate simple_externals aged_tracker [] = Inr (matches, ud, ut)"
    and old: "\<forall>t\<in>set (trackers st'). time_since_update t \<le> max_age st'"
    using track_eviction [OF simple_solver_in_range aged_inv, of "[]"]
    by (elim exE conjE) (rule that, assumption+)
  have f1: "0 < length (trackers aged_tracker)"
    by (simp add: aged_tracker_def KalmanTracker_init_def)
  have f2: "max_age aged_tracker < Suc (time_since_update (trackers aged_tracker ! 0))"
    by (simp add: aged_tracker_def KalmanTracker_init_def)
  have f3: "trk_id (trackers aged_tracker ! 0) = 1"
    by (simp add: aged_tracker_def KalmanTracker_init_def)
  have f4: "trk_id (fresh_track 2) = 2"
    by (simp add: fresh_track_def)
  from u have upd: "update simple_externals aged_tracker [] =
       Inr ([], aged_tracker\<lparr>trackers := [], frame_count := 1\<rparr>)"
    by (simp only: aged_frame)
  have run: "run simple_externals (aged_tracker\<lparr>trackers := [], frame_count := 1\<rparr>)
      [[car_detection]] =
       Inr ([[snapshot simple_externals (fresh_track 2)]],
            aged_tracker\<lparr>trackers := [fresh_track 2], next_id := 3, frame_count := 2\<rparr>)"
    by (simp add: after_aged_frame del: One_nat_def)
  show ?thesis
    by (intro conjI simple_solver_in_range aged_inv aged_associate f1 f2 f3 f4 upd run)
qed
end
